theory Spec2Isabelle
  imports Main "HOL-Library.Word" "HOL-Library.Sublist"
begin

section \<open>JavaScript values and strings\<close>

text \<open>
  A JavaScript string is a sequence of UTF-16 code units; \<open>replace\<close>, \<open>includes\<close>,
  \<open>trim\<close> and \<open>in\<close> all work on code units. \<open>js s\<close> is the string literal
  whose code units are the ASCII characters of \<open>s\<close>.
\<close>

type_synonym jschar = "16 word"
type_synonym jsstring = "jschar list"

definition js :: "string \<Rightarrow> jsstring" where
  "js s = map of_char s"

text \<open>
  The values an options object can hold. \<open>JNum n\<close> stands for a number other than
  \<open>NaN\<close>: all the code observes of a number is whether it is zero. \<open>JObj\<close> lists the
  own properties of a plain object, whose prototype is \<open>Object.prototype\<close> (the first
  binding of a key is the property).
\<close>

datatype jsval =
    Undefined
  | Null
  | JBool bool
  | JNum int
  | JNaN
  | JStr jsstring
  | JArr "jsval list"
  | JObj "(jsstring \<times> jsval) list"

type_synonym props = "(jsstring \<times> jsval) list"

fun truthy :: "jsval \<Rightarrow> bool" where
  "truthy Undefined = False"
| "truthy Null = False"
| "truthy (JBool b) = b"
| "truthy (JNum n) = (n \<noteq> 0)"
| "truthy JNaN = False"
| "truthy (JStr s) = (s \<noteq> [])"
| "truthy (JArr xs) = True"
| "truthy (JObj ps) = True"

text \<open>\<open>a || b\<close>\<close>

definition js_or :: "jsval \<Rightarrow> jsval \<Rightarrow> jsval" where
  "js_or a b = (if truthy a then a else b)"

text \<open>\<open>Object.prototype.hasOwnProperty.call(o, key)\<close> and \<open>o.key\<close> on a plain object.\<close>

definition hasOwnProperty :: "props \<Rightarrow> jsstring \<Rightarrow> bool" where
  "hasOwnProperty ps key = (map_of ps key \<noteq> None)"

definition get_prop :: "props \<Rightarrow> jsstring \<Rightarrow> jsval" where
  "get_prop ps key = (case map_of ps key of None \<Rightarrow> Undefined | Some v \<Rightarrow> v)"

text \<open>
  Modelled from the spec: the packages \<open>validate.io-object\<close>,
  \<open>validate.io-string-primitive\<close> and \<open>validate.io-boolean-primitive\<close> are not part of the
  source file. "String fields must be strings, flag fields must be booleans" (the
  source's messages say string primitive and boolean primitive), and the "options argument
  must be an object": as the packages document it, neither \<open>null\<close> nor an array.
\<close>

fun isObject :: "jsval \<Rightarrow> bool" where
  "isObject (JObj ps) = True"
| "isObject v = False"

fun isString :: "jsval \<Rightarrow> bool" where
  "isString (JStr s) = True"
| "isString v = False"

fun isBoolean :: "jsval \<Rightarrow> bool" where
  "isBoolean (JBool b) = True"
| "isBoolean v = False"

fun own_properties :: "jsval \<Rightarrow> props" where
  "own_properties (JObj ps) = ps"
| "own_properties v = []"


section \<open>The options validator\<close>

text \<open>
  \<open>const options = {}\<close> is one object for the whole module: a dictionary from the seven
  canonical property names to values, where a property never written reads \<open>undefined\<close>.
  Every function that touches it takes it and returns it.
\<close>

datatype field = Username | Token | Repo | Message | Sort | Version | Help

type_synonym options = "field \<Rightarrow> jsval"

definition empty_options :: options where
  "empty_options = (\<lambda>f. Undefined)"

datatype type_error =
    Invalid_input jsval
  | Invalid_option jsstring

type_synonym validation = "type_error option \<times> options"

text \<open>
  One block of \<open>validate\<close>:
  \<^verbatim>\<open>
  if (hasOwnProperty.call(_options, long) || hasOwnProperty.call(_options, short)) {
      options.f = _options.long || _options.short;
      if (!isType(options.f)) { return new TypeError(msg); }
  }
  \<close>
\<close>

definition check_option ::
  "field \<Rightarrow> jsstring \<Rightarrow> jsstring \<Rightarrow> (jsval \<Rightarrow> bool) \<Rightarrow> jsstring \<Rightarrow> props \<Rightarrow> options \<Rightarrow> validation"
where
  "check_option f long short is_type msg ps options =
     (if hasOwnProperty ps long \<or> hasOwnProperty ps short then
        (let options' = options(f := js_or (get_prop ps long) (get_prop ps short))
         in if \<not> is_type (options' f) then (Some (Invalid_option msg), options')
            else (None, options'))
      else (None, options))"

text \<open>A \<open>return\<close> of an error ends \<open>validate\<close>; otherwise the next block runs.\<close>

definition and_then :: "validation \<Rightarrow> (options \<Rightarrow> validation) \<Rightarrow> validation" where
  "and_then r k = (case r of (Some e, options) \<Rightarrow> (Some e, options) | (None, options) \<Rightarrow> k options)"

definition validate :: "options \<Rightarrow> jsval \<Rightarrow> validation" where
  "validate options0 options_arg =
     (if \<not> isObject options_arg then (Some (Invalid_input options_arg), options0)
      else
        let ps = own_properties options_arg in
        and_then (check_option Username (js ''username'') (js ''u'') isString
                    (js ''invalid option. Username must be a string primitive.'') ps options0) (\<lambda>options.
        and_then (check_option Token (js ''token'') (js ''t'') isString
                    (js ''invalid option. Token must be a string primitive.'') ps options) (\<lambda>options.
        and_then (check_option Repo (js ''repo'') (js ''r'') isString
                    (js ''invalid option. Repo name must be a string primitive.'') ps options) (\<lambda>options.
        and_then (check_option Message (js ''message'') (js ''m'') isString
                    (js ''invalid option. Commit message must be a string primitive.'') ps options) (\<lambda>options.
        and_then (check_option Sort (js ''sort'') (js ''s'') isBoolean
                    (js ''invalid option. Sort option must be a boolean primitive.'') ps options) (\<lambda>options.
        and_then (check_option Version (js ''version'') (js ''v'') isBoolean
                    (js ''invalid option. Version option must be a boolean primitive.'') ps options) (\<lambda>options.
        check_option Help (js ''help'') (js ''h'') isBoolean
                    (js ''invalid option. Help option must be a boolean primitive.'') ps options)))))))"

text \<open>The seven blocks as a table, in the order \<open>validate\<close> runs them.\<close>

type_synonym option_spec = "field \<times> jsstring \<times> jsstring \<times> (jsval \<Rightarrow> bool) \<times> jsstring"

definition option_table :: "option_spec list" where
  "option_table =
     [(Username, js ''username'', js ''u'', isString,
         js ''invalid option. Username must be a string primitive.''),
      (Token, js ''token'', js ''t'', isString,
         js ''invalid option. Token must be a string primitive.''),
      (Repo, js ''repo'', js ''r'', isString,
         js ''invalid option. Repo name must be a string primitive.''),
      (Message, js ''message'', js ''m'', isString,
         js ''invalid option. Commit message must be a string primitive.''),
      (Sort, js ''sort'', js ''s'', isBoolean,
         js ''invalid option. Sort option must be a boolean primitive.''),
      (Version, js ''version'', js ''v'', isBoolean,
         js ''invalid option. Version option must be a boolean primitive.''),
      (Help, js ''help'', js ''h'', isBoolean,
         js ''invalid option. Help option must be a boolean primitive.'')]"

fun run_checks :: "option_spec list \<Rightarrow> props \<Rightarrow> options \<Rightarrow> validation" where
  "run_checks [] ps options = (None, options)"
| "run_checks ((f, long, short, is_type, msg) # rest) ps options =
     and_then (check_option f long short is_type msg ps options) (run_checks rest ps)"


fun spec_msg :: "option_spec \<Rightarrow> jsstring" where
  "spec_msg (f, long, short, is_type, msg) = msg"


section \<open>Strings: escaping, replacing, trimming\<close>

text \<open>
  \<open>htmlEscapeTable\<close>; \<open>Object.entries\<close> lists its keys in the order written:
  \<open>'>'\<close> (0x3E) first, then \<open>'<'\<close> (0x3C).
\<close>

definition htmlEscapeTable :: "(jschar \<times> jsstring) list" where
  "htmlEscapeTable = [(0x3E, js ''&gt;''), (0x3C, js ''&lt;'')]"

text \<open>
  \<open>escStr.replace(new RegExp(key, 'g'), value)\<close> for a one-character \<open>key\<close> that is
  no regular-expression metacharacter and a \<open>value\<close> without \<open>$\<close>: the \<open>g\<close> flag makes
  the replacement apply at every match.
\<close>

fun replace_global :: "jschar \<Rightarrow> jsstring \<Rightarrow> jsstring \<Rightarrow> jsstring" where
  "replace_global key val [] = []"
| "replace_global key val (c # cs) =
     (if c = key then val @ replace_global key val cs else c # replace_global key val cs)"

definition htmlEscape :: "jsstring \<Rightarrow> jsstring" where
  "htmlEscape this = fold (\<lambda>(key, val) escStr. replace_global key val escStr) htmlEscapeTable this"

text \<open>
  \<open>s.replace(pat, rep)\<close> with a string pattern (and no \<open>$\<close> in \<open>rep\<close>): only the first
  occurrence is replaced.
\<close>

fun replace_first :: "jsstring \<Rightarrow> jsstring \<Rightarrow> jsstring \<Rightarrow> jsstring" where
  "replace_first pat rep [] = (if pat = [] then rep else [])"
| "replace_first pat rep (c # cs) =
     (if prefix pat (c # cs) then rep @ drop (length pat) (c # cs)
      else c # replace_first pat rep cs)"

text \<open>\<open>s.includes(pat)\<close>\<close>

fun str_includes :: "jsstring \<Rightarrow> jsstring \<Rightarrow> bool" where
  "str_includes [] pat = (pat = [])"
| "str_includes (c # cs) pat = (prefix pat (c # cs) \<or> str_includes cs pat)"

text \<open>
  \<open>String.prototype.trim\<close> removes white space and line terminators from both ends
  (the replacement the source installs when \<open>trim\<close> is undefined never runs on an engine
  that has \<open>async\<close> functions).
\<close>

definition is_whitespace :: "jschar \<Rightarrow> bool" where
  "is_whitespace c =
     (c \<in> {0x9, 0xA, 0xB, 0xC, 0xD, 0x20, 0xA0, 0x1680, 0x2028, 0x2029, 0x202F, 0x205F,
            0x3000, 0xFEFF}
      \<or> (0x2000 \<le> c \<and> c \<le> 0x200A))"

definition trim :: "jsstring \<Rightarrow> jsstring" where
  "trim s = rev (dropWhile is_whitespace (rev (dropWhile is_whitespace s)))"

definition newline :: jsstring where
  "newline = [0xA]"


section \<open>The aggregator\<close>

record item =
  name :: jsstring
  description :: "jsstring option"
  html_url :: jsstring
  language :: "jsstring option"

type_synonym triple = "jsstring \<times> jsstring \<times> jsstring"

text \<open>
  \<open>stargazed\<close> starts as \<open>{}\<close>: its own properties in creation order, each a language
  with its array of triples. It inherits from \<open>Object.prototype\<close>, so \<open>key in stargazed\<close>
  also holds for the property names found there.
\<close>

type_synonym grouping = "(jsstring \<times> triple list) list"

definition object_prototype_keys :: "jsstring list" where
  "object_prototype_keys =
     map js [''constructor'', ''__defineGetter__'', ''__defineSetter__'', ''hasOwnProperty'',
             ''__lookupGetter__'', ''__lookupSetter__'', ''isPrototypeOf'',
             ''propertyIsEnumerable'', ''toString'', ''valueOf'', ''__proto__'',
             ''toLocaleString'']"

definition own_key :: "jsstring \<Rightarrow> grouping \<Rightarrow> bool" where
  "own_key key obj = (map_of obj key \<noteq> None)"

text \<open>\<open>key in obj\<close>\<close>

definition js_in :: "jsstring \<Rightarrow> grouping \<Rightarrow> bool" where
  "js_in key obj = (own_key key obj \<or> key \<in> set object_prototype_keys)"

datatype exception = Push_is_not_a_function

text \<open>
  \<open>stargazed[language].push(t)\<close>: an own property holds an array and gets \<open>t\<close> at its
  end; a property found on \<open>Object.prototype\<close> only has no \<open>push\<close>, and calling it
  throws a \<open>TypeError\<close>.
\<close>

fun append_to :: "jsstring \<Rightarrow> triple \<Rightarrow> grouping \<Rightarrow> grouping" where
  "append_to key t [] = []"
| "append_to key t ((k, ts) # rest) =
     (if k = key then (k, ts @ [t]) # rest else (k, ts) # append_to key t rest)"

definition push :: "grouping \<Rightarrow> jsstring \<Rightarrow> triple \<Rightarrow> exception + grouping" where
  "push stargazed key t =
     (if own_key key stargazed then Inr (append_to key t stargazed)
      else Inl Push_is_not_a_function)"

text \<open>\<open>language || 'Others'\<close>\<close>

definition language_or_others :: "jsstring option \<Rightarrow> jsstring" where
  "language_or_others l = (case l of None \<Rightarrow> js ''Others'' | Some s \<Rightarrow> if s = [] then js ''Others'' else s)"

text \<open>
  \<open>description ? description.htmlEscape().replace('\n', '') : ''\<close>, and the
  \<open>description.trim()\<close> of the triple.
\<close>

definition escaped_description :: "jsstring option \<Rightarrow> jsstring" where
  "escaped_description d =
     (case d of None \<Rightarrow> [] | Some s \<Rightarrow> if s = [] then [] else replace_first newline [] (htmlEscape s))"

definition cleaned_description :: "jsstring option \<Rightarrow> jsstring" where
  "cleaned_description d = trim (escaped_description d)"

text \<open>The body of the callback of \<open>responseBody.map\<close>, for one item.\<close>

definition add_item :: "grouping \<Rightarrow> item \<Rightarrow> exception + grouping" where
  "add_item stargazed it =
     (let lang = language_or_others (language it);
          desc = escaped_description (description it);
          stargazed' = (if \<not> js_in lang stargazed then stargazed @ [(lang, [])] else stargazed)
      in push stargazed' lang (name it, html_url it, trim desc))"

text \<open>The items in order; an exception thrown in the callback ends the traversal.\<close>

fun aggregate :: "grouping \<Rightarrow> item list \<Rightarrow> exception + grouping" where
  "aggregate stargazed [] = Inr stargazed"
| "aggregate stargazed (it # items) =
     (case add_item stargazed it of
        Inl e \<Rightarrow> Inl e
      | Inr stargazed' \<Rightarrow> aggregate stargazed' items)"

text \<open>
  \<open>Object.keys(stargazed)\<close>: the keys that are array indices (canonical decimal numerals
  up to \<open>2^32 - 2\<close>) in ascending order, then the other keys in creation order.
\<close>

definition is_digit :: "jschar \<Rightarrow> bool" where
  "is_digit c = (0x30 \<le> c \<and> c \<le> 0x39)"

definition decimal_value :: "jsstring \<Rightarrow> nat" where
  "decimal_value s = foldl (\<lambda>a c. 10 * a + (unat c - 0x30)) 0 s"

definition array_index :: "jsstring \<Rightarrow> nat option" where
  "array_index s =
     (if s \<noteq> [] \<and> list_all is_digit s \<and> (hd s \<noteq> 0x30 \<or> length s = 1)
         \<and> decimal_value s \<le> 4294967294
      then Some (decimal_value s) else None)"

definition object_keys :: "grouping \<Rightarrow> jsstring list" where
  "object_keys obj =
     (let keys = map fst obj
      in sort_key (\<lambda>k. the (array_index k)) (filter (\<lambda>k. array_index k \<noteq> None) keys)
         @ filter (\<lambda>k. array_index k = None) keys)"


section \<open>The paginated fetcher\<close>

text \<open>
  What \<open>await ghGot(url, _options)\<close> gives: a rejection, or a response with its \<open>body\<close>
  (the items of the page) and its \<open>headers.link\<close> (absent, or a string).
\<close>

datatype response =
    Rejected jsstring
  | Response "item list" "jsstring option"

text \<open>
  The request: the URL \<open>users/${username}/starred?&per_page=100&page=${page}\<close> is
  given by the two values spliced into it, and \<open>_options\<close> goes with it.
\<close>

type_synonym endpoint = "jsval \<Rightarrow> nat \<Rightarrow> jsval \<Rightarrow> response"

text \<open>\<open>headers.link && headers.link.includes('next')\<close>\<close>

definition has_next :: "jsstring option \<Rightarrow> bool" where
  "has_next link = (case link of None \<Rightarrow> False | Some l \<Rightarrow> l \<noteq> [] \<and> str_includes l (js ''next''))"

datatype fetched =
    Fetch_failed jsstring
  | Fetched "item list"

text \<open>
  \<open>loop\<close> with the variables it closes over (\<open>page\<close>, \<open>list\<close>) as arguments, and the
  pages requested so far as \<open>log\<close>. The endpoint may announce a next page for ever, and
  then the loop does not return: the result is \<open>None\<close>. (\<open>page\<close> is a JavaScript
  number and counts exactly up to \<open>2^53\<close>, which no run reaches.)
\<close>

partial_function (option) loop ::
  "endpoint \<Rightarrow> jsval \<Rightarrow> jsval \<Rightarrow> nat \<Rightarrow> item list \<Rightarrow> nat list \<Rightarrow> (fetched \<times> nat list) option"
where
  "loop ghGot username options_arg page list log =
     (case ghGot username page options_arg of
        Rejected err \<Rightarrow> Some (Fetch_failed err, log @ [page])
      | Response body link \<Rightarrow>
          if has_next link
          then loop ghGot username options_arg (page + 1) (list @ body) (log @ [page])
          else Some (Fetched (list @ body), log @ [page]))"


section \<open>The exported function\<close>

text \<open>What lies outside the source file: the endpoint, the template file, the renderer,
  \<open>lodash.unescape\<close> and the file system.\<close>

record render_context =
  languages :: "jsstring list"
  ctx_username :: jsval
  stargazed :: grouping

record env =
  ghGot :: endpoint
  readFile :: "jsstring + jsstring"
  render :: "jsstring \<Rightarrow> render_context \<Rightarrow> jsstring + jsstring"
  unescape :: "jsstring \<Rightarrow> jsstring"
  writeFile :: "jsstring \<Rightarrow> jsstring option"

text \<open>\<open>flashError(message)\<close> prints the message and ends the process with status 1.\<close>

datatype flash =
    Flash_type_error type_error
  | Flash_text jsstring
  | Flash_caught jsstring

datatype outcome =
    Fatal flash
  | Returned
  | Thrown_type_error exception
  | Thrown_by_render jsstring
  | Wrote_README jsstring

text \<open>
  \<open>getReadmeTemplate\<close>, \<open>buildReadmeContent\<close> and \<open>writeReadmeContent\<close>: a failure
  to read or to write is caught and goes to \<open>flashError\<close>; an exception of the renderer is
  not caught.
\<close>

definition getReadmeTemplate :: "env \<Rightarrow> outcome + jsstring" where
  "getReadmeTemplate env =
     (case readFile env of
        Inl err \<Rightarrow> Inl (Fatal (Flash_caught err))
      | Inr template \<Rightarrow> Inr template)"

definition buildReadmeContent :: "env \<Rightarrow> render_context \<Rightarrow> outcome + jsstring" where
  "buildReadmeContent env context =
     (case getReadmeTemplate env of
        Inl out \<Rightarrow> Inl out
      | Inr template \<Rightarrow>
          (case render env template context of
             Inl err \<Rightarrow> Inl (Thrown_by_render err)
           | Inr text \<Rightarrow> Inr text))"

definition writeReadmeContent :: "env \<Rightarrow> jsstring \<Rightarrow> outcome" where
  "writeReadmeContent env readmeContent =
     (case writeFile env (unescape env readmeContent) of
        Some err \<Rightarrow> Fatal (Flash_caught err)
      | None \<Rightarrow> Wrote_README (unescape env readmeContent))"

text \<open>
  One call of the exported function: how it ends, the pages it requested, and the
  module's \<open>options\<close> as it leaves them. \<open>None\<close>: the fetch loop never returns.
\<close>

definition module_exports ::
  "env \<Rightarrow> options \<Rightarrow> jsval \<Rightarrow> (outcome \<times> nat list \<times> options) option"
where
  "module_exports env options0 options_arg =
     (case validate options0 options_arg of
        (Some err, options) \<Rightarrow> Some (Fatal (Flash_type_error err), [], options)
      | (None, options) \<Rightarrow>
          if truthy (options Help) then Some (Returned, [], options)
          else if truthy (options Version) then Some (Returned, [], options)
          else if \<not> truthy (options Username) then
            Some (Fatal (Flash_text (js ''Error! username is a required field.'')), [], options)
          else if truthy (options Repo) \<and> \<not> truthy (options Token) then
            Some (Fatal (Flash_text (js ''Error: creating repository needs token. Set --token'')),
                  [], options)
          else
            (case loop (ghGot env) (options Username) options_arg 1 [] [] of
               None \<Rightarrow> None
             | Some (Fetch_failed err, log) \<Rightarrow> Some (Fatal (Flash_caught err), log, options)
             | Some (Fetched responseBody, log) \<Rightarrow>
                 (case aggregate [] responseBody of
                    Inl e \<Rightarrow> Some (Thrown_type_error e, log, options)
                  | Inr grouped \<Rightarrow>
                      (case buildReadmeContent env
                              \<lparr>languages = object_keys grouped,
                               ctx_username = options Username,
                               stargazed = grouped\<rparr> of
                         Inl out \<Rightarrow> Some (out, log, options)
                       | Inr readmeContent \<Rightarrow>
                           Some (writeReadmeContent env readmeContent, log, options)))))"


section \<open>Observations on a grouping\<close>

text \<open>
  The triple the callback builds for an item, the array a grouping holds for a language
  (empty when the language is no own property), and the number of triples in a grouping.
\<close>

definition triple_of :: "item \<Rightarrow> triple" where
  "triple_of it = (name it, html_url it, cleaned_description (description it))"

definition bucket :: "grouping \<Rightarrow> jsstring \<Rightarrow> triple list" where
  "bucket obj key = (case map_of obj key of None \<Rightarrow> [] | Some ts \<Rightarrow> ts)"

definition total_triples :: "grouping \<Rightarrow> nat" where
  "total_triples obj = sum_list (map (\<lambda>(key, ts). length ts) obj)"


section \<open>Readings of the specification, for comparison with the code\<close>

text \<open>
  The escaping as the specification words it: "escaping only the first occurrence of each"
  of \<open><\<close> and \<open>>\<close>. This is not the code's \<open>htmlEscape\<close>.
\<close>

definition first_occurrence_escape :: "jsstring \<Rightarrow> jsstring" where
  "first_occurrence_escape s =
     fold (\<lambda>(key, val) escStr. replace_first [key] val escStr) htmlEscapeTable s"


text \<open>
  The pagination header as the specification words it: the response "advertises a next
  relation", which the endpoint writes \<open><url>; rel="next"\<close>. This is not the code's
  \<open>has_next\<close>.
\<close>

definition dquote :: jsstring where
  "dquote = [0x22]"

definition advertises_next_relation :: "jsstring option \<Rightarrow> bool" where
  "advertises_next_relation link =
     (case link of
        None \<Rightarrow> False
      | Some l \<Rightarrow> str_includes l (js ''rel='' @ dquote @ js ''next'' @ dquote))"

text \<open>
  The mock endpoint of the pagination property: pages 1 to 3 hold 100 items each and
  announce the next page, page 4 holds one item and has no link header. Item \<open>i\<close> of
  page \<open>p\<close> carries both numbers in its name.
\<close>

definition mock_item :: "nat \<Rightarrow> nat \<Rightarrow> item" where
  "mock_item p i =
     \<lparr>name = [of_nat p, of_nat i], description = None,
      html_url = js ''https://github.com/a/r'', language = None\<rparr>"

definition mock_next_link :: jsstring where
  "mock_next_link =
     js ''<https://api.github.com/user/1/starred?per_page=100&page=2>; rel=''
     @ dquote @ js ''next'' @ dquote"

definition mock_endpoint :: endpoint where
  "mock_endpoint username page options_arg =
     (if page \<le> 3 then Response (map (mock_item page) [0..<100]) (Some mock_next_link)
      else Response [mock_item page 0] None)"


text \<open>
  A second mock endpoint, for a user called \<open>nextjs\<close>: the same three pages, then a last
  page of one item whose link header has \<open>prev\<close> as its only relation, with the user's
  name in its URL, and empty pages after it.
\<close>

definition nextjs_prev_link :: jsstring where
  "nextjs_prev_link =
     js ''<https://api.example.com/users/nextjs/starred?per_page=100&page=3>; rel=''
     @ dquote @ js ''prev'' @ dquote"

definition nextjs_endpoint :: endpoint where
  "nextjs_endpoint username page options_arg =
     (if page \<le> 3 then Response (map (mock_item page) [0..<100]) (Some mock_next_link)
      else if page = 4 then Response [mock_item page 0] (Some nextjs_prev_link)
      else Response [] None)"


section \<open>Properties of the validator\<close>

lemma and_then_return: "and_then r (\<lambda>options. (None, options)) = r"
  by (simp add: and_then_def split: prod.splits option.splits)

lemma run_checks_Nil: "run_checks [] ps = (\<lambda>options. (None, options))"
  by (rule ext) simp

lemma run_checks_Cons:
  "run_checks ((f, long, short, is_type, msg) # rest) ps =
     (\<lambda>options. and_then (check_option f long short is_type msg ps options) (run_checks rest ps))"
  by (rule ext) simp

lemma validate_run_checks: "validate options0 (JObj ps) = run_checks option_table ps options0"
  by (simp only: validate_def option_table_def run_checks_Nil run_checks_Cons and_then_return
        isObject.simps own_properties.simps Let_def not_True_eq_False if_False)

lemma validate_not_object: "\<not> isObject arg \<Longrightarrow> validate options0 arg = (Some (Invalid_input arg), options0)"
  by (simp add: validate_def)

lemma run_checks_other:
  "g \<notin> fst ` set tbl \<Longrightarrow> snd (run_checks tbl ps options) g = options g"
proof (induction tbl arbitrary: options)
  case Nil
  then show ?case by simp
next
  case (Cons e tbl)
  obtain f long short is_type msg where e: "e = (f, long, short, is_type, msg)"
    by (cases e) auto
  from Cons.prems e have ne: "g \<noteq> f" and rest: "g \<notin> fst ` set tbl" by auto
  show ?case
    using Cons.IH [OF rest] ne
    by (simp add: e and_then_def check_option_def Let_def)
qed

lemma run_checks_absent:
  assumes "\<And>long short is_type msg. (g, long, short, is_type, msg) \<in> set tbl
             \<Longrightarrow> \<not> hasOwnProperty ps long \<and> \<not> hasOwnProperty ps short"
  shows "snd (run_checks tbl ps options) g = options g"
  using assms
proof (induction tbl arbitrary: options)
  case Nil
  then show ?case by simp
next
  case (Cons e tbl)
  obtain f long short is_type msg where e: "e = (f, long, short, is_type, msg)"
    by (cases e) auto
  have rest: "\<And>options. snd (run_checks tbl ps options) g = options g"
    by (rule Cons.IH) (use Cons.prems in auto)
  have this_one: "f = g \<Longrightarrow> \<not> hasOwnProperty ps long \<and> \<not> hasOwnProperty ps short"
    using Cons.prems [of long short is_type msg] e by simp
  show ?case
    using rest this_one
    by (auto simp add: e and_then_def check_option_def Let_def)
qed


lemma distinct_option_table: "distinct (map fst option_table)"
  by (simp add: option_table_def)


lemma distinct_option_messages: "distinct (map spec_msg option_table)"
  by (simp add: option_table_def js_def)

lemma run_checks_error_message:
  "run_checks tbl ps options = (Some (Invalid_option m), options') \<Longrightarrow> m \<in> spec_msg ` set tbl"
proof (induction tbl arbitrary: options)
  case Nil
  then show ?case by simp
next
  case (Cons e tbl)
  obtain f long short is_type msg where e: "e = (f, long, short, is_type, msg)"
    by (cases e) auto
  show ?case
  proof (cases "check_option f long short is_type msg ps options")
    case (Pair r1 o1)
    show ?thesis
    proof (cases r1)
      case None
      with Cons.prems Pair e have "run_checks tbl ps o1 = (Some (Invalid_option m), options')"
        by (simp add: and_then_def)
      from Cons.IH [OF this] show ?thesis by simp
    next
      case (Some err)
      with Cons.prems Pair e have "m = msg"
        by (auto simp add: and_then_def check_option_def Let_def split: if_splits)
      then show ?thesis by (simp add: e)
    qed
  qed
qed

lemma run_checks_failed_option:
  assumes "distinct (map spec_msg tbl)"
    and "(f, long, short, is_type, msg) \<in> set tbl"
    and "run_checks tbl ps options = (Some (Invalid_option msg), options')"
  shows "(hasOwnProperty ps long \<or> hasOwnProperty ps short)
         \<and> options' f = js_or (get_prop ps long) (get_prop ps short)
         \<and> \<not> is_type (options' f)"
  using assms
proof (induction tbl arbitrary: options)
  case Nil
  then show ?case by simp
next
  case (Cons e tbl)
  obtain f0 l0 s0 c0 m0 where e: "e = (f0, l0, s0, c0, m0)"
    by (cases e) auto
  from Cons.prems(1) e have m0: "m0 \<notin> spec_msg ` set tbl" and dist: "distinct (map spec_msg tbl)"
    by auto
  show ?case
  proof (cases "check_option f0 l0 s0 c0 m0 ps options")
    case (Pair r1 o1)
    show ?thesis
    proof (cases r1)
      case None
      with Cons.prems(3) Pair e have run: "run_checks tbl ps o1 = (Some (Invalid_option msg), options')"
        by (simp add: and_then_def)
      from run_checks_error_message [OF run] m0 have "msg \<noteq> m0" by auto
      with Cons.prems(2) e have "(f, long, short, is_type, msg) \<in> set tbl" by auto
      from Cons.IH [OF dist this run] show ?thesis .
    next
      case (Some err)
      with Cons.prems(3) Pair e have same: "msg = m0" and o1: "o1 = options'"
        by (auto simp add: and_then_def check_option_def Let_def split: if_splits)
      have "(f, long, short, is_type, msg) \<notin> set tbl"
        using m0 same by force
      with Cons.prems(2) e have "f0 = f" "l0 = long" "s0 = short" "c0 = is_type" by auto
      with Pair Some o1 show ?thesis
        by (auto simp add: check_option_def Let_def split: if_splits)
    qed
  qed
qed

lemma run_checks_passed_option:
  assumes "distinct (map fst tbl)"
    and "(f, long, short, is_type, msg) \<in> set tbl"
    and "run_checks tbl ps options = (None, options')"
    and "hasOwnProperty ps long \<or> hasOwnProperty ps short"
  shows "options' f = js_or (get_prop ps long) (get_prop ps short) \<and> is_type (options' f)"
  using assms
proof (induction tbl arbitrary: options)
  case Nil
  then show ?case by simp
next
  case (Cons e tbl)
  obtain f0 l0 s0 c0 m0 where e: "e = (f0, l0, s0, c0, m0)"
    by (cases e) auto
  from Cons.prems(1) e have f0: "f0 \<notin> fst ` set tbl" and dist: "distinct (map fst tbl)"
    by auto
  obtain o1 where first: "check_option f0 l0 s0 c0 m0 ps options = (None, o1)"
    and run: "run_checks tbl ps o1 = (None, options')"
    using Cons.prems(3) e
    by (cases "check_option f0 l0 s0 c0 m0 ps options")
       (auto simp add: and_then_def split: option.splits)
  show ?case
  proof (cases "(f, long, short, is_type, msg) \<in> set tbl")
    case True
    from Cons.IH [OF dist True run Cons.prems(4)] show ?thesis .
  next
    case False
    with Cons.prems(2) e have eq: "f0 = f" "l0 = long" "s0 = short" "c0 = is_type" by auto
    from run_checks_other [OF f0, of ps o1] run have "options' f0 = o1 f0" by simp
    with first eq Cons.prems(4) show ?thesis
      by (auto simp add: check_option_def Let_def split: if_splits)
  qed
qed

lemma run_checks_falsy_long:
  assumes "(f, long, short, is_type, msg) \<in> set tbl"
    and "hasOwnProperty ps long" and "\<not> truthy (get_prop ps long)"
    and "\<not> hasOwnProperty ps short"
    and "\<not> is_type Undefined"
  shows "\<exists>m. fst (run_checks tbl ps options) = Some (Invalid_option m)"
  using assms(1)
proof (induction tbl arbitrary: options)
  case Nil
  then show ?case by simp
next
  case (Cons e tbl)
  obtain f0 l0 s0 c0 m0 where e: "e = (f0, l0, s0, c0, m0)"
    by (cases e) auto
  from assms(4) have short: "get_prop ps short = Undefined"
    by (simp add: hasOwnProperty_def get_prop_def)
  show ?case
  proof (cases "check_option f0 l0 s0 c0 m0 ps options")
    case (Pair r1 o1)
    show ?thesis
    proof (cases r1)
      case (Some err)
      with Pair e show ?thesis
        by (auto simp add: and_then_def check_option_def Let_def split: if_splits)
    next
      case None
      have "(f, long, short, is_type, msg) \<in> set tbl"
      proof (rule ccontr)
        assume "(f, long, short, is_type, msg) \<notin> set tbl"
        with Cons.prems e have "f0 = f" "l0 = long" "s0 = short" "c0 = is_type" by auto
        with Pair None assms(2,3,5) short show False
          by (simp add: check_option_def Let_def js_or_def)
      qed
      from Cons.IH [OF this, of o1] Pair None e show ?thesis
        by (simp add: and_then_def)
    qed
  qed
qed

lemma option_table_types:
  "(f, long, short, is_type, msg) \<in> set option_table \<Longrightarrow> \<not> is_type Undefined"
  by (auto simp add: option_table_def)

text \<open>The definitions that evaluate \<open>validate\<close> on a concrete options object.\<close>

lemmas validate_eval =
  validate_def check_option_def and_then_def hasOwnProperty_def get_prop_def js_or_def js_def Let_def


section \<open>C9: a falsy value under the long alias\<close>

text \<open>
  C9 (as amended). Each canonical field is \<open>long || short\<close>. Whenever the long alias of a
  recognized option is present with a falsy value and the short alias is absent, the
  validator returns a \<open>TypeError\<close>: \<open>{username: ""}\<close> fails with "Username must be a
  string primitive", whatever the options record held before, and
  \<open>{username: "a", sort: false}\<close> fails with "Sort option must be a boolean primitive".
  When both aliases are present and the long alias's value is falsy, the value stored (when
  validation succeeds or fails on that very option) is the short alias's value.
\<close>

theorem validate_falsy_long_alias:
  "((f, long, short, is_type, msg) \<in> set option_table
      \<and> hasOwnProperty ps long \<and> \<not> truthy (get_prop ps long) \<and> \<not> hasOwnProperty ps short
     \<longrightarrow> (\<exists>m. fst (validate options0 (JObj ps)) = Some (Invalid_option m)))
   \<and> validate options0 (JObj [(js ''username'', JStr [])]) =
       (Some (Invalid_option (js ''invalid option. Username must be a string primitive.'')),
        options0(Username := Undefined))
   \<and> validate options0 (JObj [(js ''username'', JStr (js ''a'')), (js ''sort'', JBool False)]) =
       (Some (Invalid_option (js ''invalid option. Sort option must be a boolean primitive.'')),
        options0(Username := JStr (js ''a''), Sort := Undefined))
   \<and> ((f, long, short, is_type, msg) \<in> set option_table
      \<and> hasOwnProperty ps long \<and> hasOwnProperty ps short \<and> \<not> truthy (get_prop ps long)
      \<and> validate options0 (JObj ps) = (r, options')
      \<and> (r = None \<or> r = Some (Invalid_option msg))
     \<longrightarrow> options' f = get_prop ps short)"
proof (intro conjI impI)
  assume h: "(f, long, short, is_type, msg) \<in> set option_table
      \<and> hasOwnProperty ps long \<and> \<not> truthy (get_prop ps long) \<and> \<not> hasOwnProperty ps short"
  then have entry: "(f, long, short, is_type, msg) \<in> set option_table" by simp
  from option_table_types [OF entry] have "\<not> is_type Undefined" .
  with h run_checks_falsy_long [OF entry, of ps options0]
  show "\<exists>m. fst (validate options0 (JObj ps)) = Some (Invalid_option m)"
    by (simp add: validate_run_checks)
next
  show "validate options0 (JObj [(js ''username'', JStr [])]) =
       (Some (Invalid_option (js ''invalid option. Username must be a string primitive.'')),
        options0(Username := Undefined))"
    by (simp add: validate_eval)
next
  show "validate options0 (JObj [(js ''username'', JStr (js ''a'')), (js ''sort'', JBool False)]) =
       (Some (Invalid_option (js ''invalid option. Sort option must be a boolean primitive.'')),
        options0(Username := JStr (js ''a''), Sort := Undefined))"
    by (simp add: validate_eval)
next
  assume h: "(f, long, short, is_type, msg) \<in> set option_table
      \<and> hasOwnProperty ps long \<and> hasOwnProperty ps short \<and> \<not> truthy (get_prop ps long)
      \<and> validate options0 (JObj ps) = (r, options')
      \<and> (r = None \<or> r = Some (Invalid_option msg))"
  then have entry: "(f, long, short, is_type, msg) \<in> set option_table"
    and present: "hasOwnProperty ps long \<or> hasOwnProperty ps short"
    and falsy: "\<not> truthy (get_prop ps long)"
    and run: "run_checks option_table ps options0 = (r, options')"
    and r: "r = None \<or> r = Some (Invalid_option msg)"
    by (simp_all add: validate_run_checks)
  from r have "options' f = js_or (get_prop ps long) (get_prop ps short)"
  proof
    assume "r = None"
    with run_checks_passed_option [OF distinct_option_table entry _ present] run
    show ?thesis by simp
  next
    assume "r = Some (Invalid_option msg)"
    with run_checks_failed_option [OF distinct_option_messages entry] run
    show ?thesis by simp
  qed
  with falsy show "options' f = get_prop ps short"
    by (simp add: js_or_def)
qed

text \<open>
  The theorem at \<open>{username: "a", token: 0}\<close> (a falsy long alias alone) and at
  \<open>{username: "", u: "bob"}\<close> (both aliases, the long one falsy).
\<close>

theorem validate_falsy_long_alias_witness:
  "(Token, js ''token'', js ''t'', isString, js ''invalid option. Token must be a string primitive.'')
      \<in> set option_table
   \<and> hasOwnProperty [(js ''username'', JStr (js ''a'')), (js ''token'', JNum 0)] (js ''token'')
   \<and> \<not> truthy (get_prop [(js ''username'', JStr (js ''a'')), (js ''token'', JNum 0)] (js ''token''))
   \<and> \<not> hasOwnProperty [(js ''username'', JStr (js ''a'')), (js ''token'', JNum 0)] (js ''t'')
   \<and> (\<exists>m. fst (validate empty_options
                  (JObj [(js ''username'', JStr (js ''a'')), (js ''token'', JNum 0)]))
            = Some (Invalid_option m))
   \<and> (Username, js ''username'', js ''u'', isString,
        js ''invalid option. Username must be a string primitive.'') \<in> set option_table
   \<and> hasOwnProperty [(js ''username'', JStr []), (js ''u'', JStr (js ''bob''))] (js ''username'')
   \<and> hasOwnProperty [(js ''username'', JStr []), (js ''u'', JStr (js ''bob''))] (js ''u'')
   \<and> \<not> truthy (get_prop [(js ''username'', JStr []), (js ''u'', JStr (js ''bob''))] (js ''username''))
   \<and> validate empty_options (JObj [(js ''username'', JStr []), (js ''u'', JStr (js ''bob''))])
       = (None, empty_options(Username := JStr (js ''bob'')))
   \<and> (empty_options(Username := JStr (js ''bob''))) Username
       = get_prop [(js ''username'', JStr []), (js ''u'', JStr (js ''bob''))] (js ''u'')"
proof -
  let ?ps1 = "[(js ''username'', JStr (js ''a'')), (js ''token'', JNum 0)]"
  let ?ps2 = "[(js ''username'', JStr []), (js ''u'', JStr (js ''bob''))]"
  have h1: "(Token, js ''token'', js ''t'', isString,
              js ''invalid option. Token must be a string primitive.'') \<in> set option_table
      \<and> hasOwnProperty ?ps1 (js ''token'') \<and> \<not> truthy (get_prop ?ps1 (js ''token''))
      \<and> \<not> hasOwnProperty ?ps1 (js ''t'')"
    by (simp add: option_table_def hasOwnProperty_def get_prop_def js_def)
  have run2: "validate empty_options (JObj ?ps2) = (None, empty_options(Username := JStr (js ''bob'')))"
    by (simp add: validate_eval)
  have h2: "(Username, js ''username'', js ''u'', isString,
              js ''invalid option. Username must be a string primitive.'') \<in> set option_table
      \<and> hasOwnProperty ?ps2 (js ''username'') \<and> hasOwnProperty ?ps2 (js ''u'')
      \<and> \<not> truthy (get_prop ?ps2 (js ''username''))"
    by (simp add: option_table_def hasOwnProperty_def get_prop_def js_def)
  from validate_falsy_long_alias
         [of Token "js ''token''" "js ''t''" isString
             "js ''invalid option. Token must be a string primitive.''" ?ps1 empty_options]
       h1
  have c1: "\<exists>m. fst (validate empty_options (JObj ?ps1)) = Some (Invalid_option m)"
    by blast
  from validate_falsy_long_alias
         [of Username "js ''username''" "js ''u''" isString
             "js ''invalid option. Username must be a string primitive.''" ?ps2 empty_options
             None "empty_options(Username := JStr (js ''bob''))"]
       h2 run2
  have c2: "(empty_options(Username := JStr (js ''bob''))) Username = get_prop ?ps2 (js ''u'')"
    by blast
  from h1 h2 run2 c1 c2 show ?thesis by blast
qed

text \<open>
  C9 as stated covers every recognized key. It fails for a short alias: in \<open>{u: ""}\<close> the
  recognized key \<open>u\<close> is present with a falsy value and its alias \<open>username\<close> is absent,
  yet \<open>undefined || ""\<close> is \<open>""\<close>, a string, and validation succeeds; likewise
  \<open>{s: false}\<close>.
\<close>

theorem validate_falsy_short_alias_counterexample:
  "(Username, js ''username'', js ''u'', isString,
      js ''invalid option. Username must be a string primitive.'') \<in> set option_table
   \<and> hasOwnProperty [(js ''u'', JStr [])] (js ''u'')
   \<and> \<not> truthy (get_prop [(js ''u'', JStr [])] (js ''u''))
   \<and> \<not> hasOwnProperty [(js ''u'', JStr [])] (js ''username'')
   \<and> validate empty_options (JObj [(js ''u'', JStr [])]) = (None, empty_options(Username := JStr []))
   \<and> (Sort, js ''sort'', js ''s'', isBoolean,
        js ''invalid option. Sort option must be a boolean primitive.'') \<in> set option_table
   \<and> hasOwnProperty [(js ''s'', JBool False)] (js ''s'')
   \<and> \<not> truthy (get_prop [(js ''s'', JBool False)] (js ''s''))
   \<and> \<not> hasOwnProperty [(js ''s'', JBool False)] (js ''sort'')
   \<and> validate empty_options (JObj [(js ''s'', JBool False)])
       = (None, empty_options(Sort := JBool False))"
  by (simp add: validate_eval option_table_def)

section \<open>Properties of the exported function and of the loop\<close>

lemma js_Nil_iff: "js s = [] \<longleftrightarrow> s = []"
  by (simp add: js_def)

lemma empty_options_apply: "empty_options f = Undefined"
  by (simp add: empty_options_def)

lemma module_exports_options:
  "module_exports env options0 options_arg = Some (out, reqs, options1)
   \<Longrightarrow> options1 = snd (validate options0 options_arg)"
  by (auto simp add: module_exports_def
           split: prod.splits option.splits if_splits sum.splits fetched.splits)

lemma validate_absent:
  assumes "(f, long, short, is_type, msg) \<in> set option_table"
    and "\<not> hasOwnProperty (own_properties options_arg) long"
    and "\<not> hasOwnProperty (own_properties options_arg) short"
  shows "snd (validate options0 options_arg) f = options0 f"
proof (cases options_arg)
  case (JObj ps)
  have "snd (run_checks option_table ps options0) f = options0 f"
  proof (rule run_checks_absent)
    fix l s c m
    assume "(f, l, s, c, m) \<in> set option_table"
    with assms(1) have "l = long \<and> s = short"
      by (auto simp add: option_table_def)
    with assms(2,3) JObj show "\<not> hasOwnProperty ps l \<and> \<not> hasOwnProperty ps s" by simp
  qed
  with JObj show ?thesis by (simp add: validate_run_checks)
qed (simp_all add: validate_def)

lemma loop_last_page:
  "ep username page options_arg = Response body link \<Longrightarrow> \<not> has_next link
   \<Longrightarrow> loop ep username options_arg page list log = Some (Fetched (list @ body), log @ [page])"
  by (subst loop.simps) simp

lemma loop_next_page:
  "ep username page options_arg = Response body link \<Longrightarrow> has_next link
   \<Longrightarrow> loop ep username options_arg page list log
       = loop ep username options_arg (page + 1) (list @ body) (log @ [page])"
  by (subst loop.simps) simp

lemma loop_rejected:
  "ep username page options_arg = Rejected err
   \<Longrightarrow> loop ep username options_arg page list log = Some (Fetch_failed err, log @ [page])"
  by (subst loop.simps) simp


section \<open>C10: the shared options record\<close>

text \<open>
  C10. \<open>validate\<close> writes \<open>long || short\<close> into the module's options record before it
  checks the type: when it returns the \<open>TypeError\<close> of an option, the record holds the
  offending value. And the record outlives the call: an option that a later invocation of
  the exported function does not mention (neither alias) is read by that invocation as the
  earlier one left it.
\<close>

theorem validate_writes_before_checking:
  "((f, long, short, is_type, msg) \<in> set option_table
      \<and> validate options0 options_arg = (Some (Invalid_option msg), options')
     \<longrightarrow> options' f = js_or (get_prop (own_properties options_arg) long)
                           (get_prop (own_properties options_arg) short)
         \<and> \<not> is_type (options' f))
   \<and> ((f, long, short, is_type, msg) \<in> set option_table
      \<and> module_exports env1 options0 arg1 = Some (out1, reqs1, options1)
      \<and> \<not> hasOwnProperty (own_properties arg2) long
      \<and> \<not> hasOwnProperty (own_properties arg2) short
      \<and> module_exports env2 options1 arg2 = Some (out2, reqs2, options2)
     \<longrightarrow> options1 = snd (validate options0 arg1)
         \<and> snd (validate options1 arg2) f = options1 f
         \<and> options2 f = options1 f)"
proof (intro conjI impI)
  assume h: "(f, long, short, is_type, msg) \<in> set option_table
      \<and> validate options0 options_arg = (Some (Invalid_option msg), options')"
  then have entry: "(f, long, short, is_type, msg) \<in> set option_table"
    and v: "validate options0 options_arg = (Some (Invalid_option msg), options')"
    by simp_all
  have obj: "isObject options_arg"
    using v by (cases "isObject options_arg") (simp_all add: validate_def)
  then obtain ps where ps: "options_arg = JObj ps" by (cases options_arg) simp_all
  with v have "run_checks option_table ps options0 = (Some (Invalid_option msg), options')"
    by (simp add: validate_run_checks)
  from run_checks_failed_option [OF distinct_option_messages entry this] ps
  show "options' f = js_or (get_prop (own_properties options_arg) long)
                           (get_prop (own_properties options_arg) short)"
    and "\<not> is_type (options' f)"
    by auto
next
  assume h: "(f, long, short, is_type, msg) \<in> set option_table
      \<and> module_exports env1 options0 arg1 = Some (out1, reqs1, options1)
      \<and> \<not> hasOwnProperty (own_properties arg2) long
      \<and> \<not> hasOwnProperty (own_properties arg2) short
      \<and> module_exports env2 options1 arg2 = Some (out2, reqs2, options2)"
  then have entry: "(f, long, short, is_type, msg) \<in> set option_table"
    and first: "module_exports env1 options0 arg1 = Some (out1, reqs1, options1)"
    and absent: "\<not> hasOwnProperty (own_properties arg2) long"
      "\<not> hasOwnProperty (own_properties arg2) short"
    and second: "module_exports env2 options1 arg2 = Some (out2, reqs2, options2)"
    by simp_all
  from module_exports_options [OF first]
  show "options1 = snd (validate options0 arg1)" .
  from validate_absent [OF entry absent]
  show kept: "snd (validate options1 arg2) f = options1 f" .
  from module_exports_options [OF second] kept
  show "options2 f = options1 f" by simp
qed

text \<open>
  The theorem at \<open>{username: 5}\<close>, which leaves 5 in the record, and at the invocations
  \<open>{username: "a", help: true}\<close> and then \<open>{username: "a"}\<close>: the second one returns as
  the first did, on the \<open>help\<close> it left behind, and fetches nothing.
\<close>

theorem validate_writes_before_checking_witness:
  "(Username, js ''username'', js ''u'', isString,
      js ''invalid option. Username must be a string primitive.'') \<in> set option_table
   \<and> validate empty_options (JObj [(js ''username'', JNum 5)])
       = (Some (Invalid_option (js ''invalid option. Username must be a string primitive.'')),
          empty_options(Username := JNum 5))
   \<and> (empty_options(Username := JNum 5)) Username = JNum 5
   \<and> \<not> isString ((empty_options(Username := JNum 5)) Username)
   \<and> (Help, js ''help'', js ''h'', isBoolean,
        js ''invalid option. Help option must be a boolean primitive.'') \<in> set option_table
   \<and> module_exports
         \<lparr>ghGot = (\<lambda>u p a. Response [] None), readFile = Inr (js ''t''),
          render = (\<lambda>t c. Inr t), unescape = (\<lambda>s. s), writeFile = (\<lambda>s. None)\<rparr>
         empty_options (JObj [(js ''username'', JStr (js ''a'')), (js ''help'', JBool True)])
       = Some (Returned, [], empty_options(Username := JStr (js ''a''), Help := JBool True))
   \<and> \<not> hasOwnProperty (own_properties (JObj [(js ''username'', JStr (js ''a''))])) (js ''help'')
   \<and> \<not> hasOwnProperty (own_properties (JObj [(js ''username'', JStr (js ''a''))])) (js ''h'')
   \<and> module_exports
         \<lparr>ghGot = (\<lambda>u p a. Response [] None), readFile = Inr (js ''t''),
          render = (\<lambda>t c. Inr t), unescape = (\<lambda>s. s), writeFile = (\<lambda>s. None)\<rparr>
         (empty_options(Username := JStr (js ''a''), Help := JBool True))
         (JObj [(js ''username'', JStr (js ''a''))])
       = Some (Returned, [], empty_options(Username := JStr (js ''a''), Help := JBool True))
   \<and> snd (validate (empty_options(Username := JStr (js ''a''), Help := JBool True))
              (JObj [(js ''username'', JStr (js ''a''))])) Help = JBool True"
proof -
  let ?env = "\<lparr>ghGot = (\<lambda>u p a. Response [] None), readFile = Inr (js ''t''),
          render = (\<lambda>t c. Inr t), unescape = (\<lambda>s. s), writeFile = (\<lambda>s. None)\<rparr>"
  let ?msg_u = "js ''invalid option. Username must be a string primitive.''"
  let ?msg_h = "js ''invalid option. Help option must be a boolean primitive.''"
  let ?arg1 = "JObj [(js ''username'', JStr (js ''a'')), (js ''help'', JBool True)]"
  let ?arg2 = "JObj [(js ''username'', JStr (js ''a''))]"
  let ?options1 = "empty_options(Username := JStr (js ''a''), Help := JBool True)"
  have e1: "(Username, js ''username'', js ''u'', isString, ?msg_u) \<in> set option_table"
    and e2: "(Help, js ''help'', js ''h'', isBoolean, ?msg_h) \<in> set option_table"
    by (simp_all add: option_table_def)
  have v: "validate empty_options (JObj [(js ''username'', JNum 5)])
             = (Some (Invalid_option ?msg_u), empty_options(Username := JNum 5))"
    by (simp add: validate_eval)
  have first: "module_exports ?env empty_options ?arg1 = Some (Returned, [], ?options1)"
    by (simp add: module_exports_def validate_eval)
  have second: "module_exports ?env ?options1 ?arg2 = Some (Returned, [], ?options1)"
    by (simp add: module_exports_def validate_eval fun_eq_iff)
  have absent: "\<not> hasOwnProperty (own_properties ?arg2) (js ''help'')"
    "\<not> hasOwnProperty (own_properties ?arg2) (js ''h'')"
    by (simp_all add: hasOwnProperty_def js_def)
  from validate_writes_before_checking
         [of Username "js ''username''" "js ''u''" isString ?msg_u empty_options
             "JObj [(js ''username'', JNum 5)]" "empty_options(Username := JNum 5)"]
       e1 v
  have c1: "\<not> isString ((empty_options(Username := JNum 5)) Username)"
    by blast
  from validate_writes_before_checking
         [where f = Help and long = "js ''help''" and short = "js ''h''" and is_type = isBoolean
            and msg = ?msg_h and ?options0.0 = empty_options and ?env1.0 = ?env
            and ?arg1.0 = ?arg1 and ?out1.0 = Returned and ?reqs1.0 = "[]"
            and ?options1.0 = ?options1 and ?arg2.0 = ?arg2 and ?env2.0 = ?env
            and ?out2.0 = Returned and ?reqs2.0 = "[]" and ?options2.0 = ?options1]
       e2 first absent second
  have c2: "snd (validate ?options1 ?arg2) Help = ?options1 Help"
    by blast
  from e1 e2 v first second absent c1 c2 show ?thesis by simp
qed

section \<open>Properties of the escaping\<close>

lemma htmlEscape_Nil: "htmlEscape [] = []"
  by (simp add: htmlEscape_def htmlEscapeTable_def)

lemma htmlEscape_Cons:
  "htmlEscape (c # cs) =
     (if c = 0x3C then js ''&lt;'' else if c = 0x3E then js ''&gt;'' else [c]) @ htmlEscape cs"
  by (simp add: htmlEscape_def htmlEscapeTable_def js_def)


section \<open>C2: which occurrences are escaped\<close>

text \<open>
  C2 (as amended). For every description string, \<open>htmlEscape\<close> replaces every occurrence of
  \<open><\<close> by \<open>&lt;\<close> and every occurrence of \<open>>\<close> by \<open>&gt;\<close> (the regular expression
  is built with the \<open>g\<close> flag), and leaves every other code unit as it is: the result has
  no raw \<open><\<close> or \<open>>\<close>.
\<close>

theorem htmlEscape_every_occurrence:
  "htmlEscape s
     = concat (map (\<lambda>c. if c = 0x3C then js ''&lt;'' else if c = 0x3E then js ''&gt;'' else [c]) s)
   \<and> 0x3C \<notin> set (htmlEscape s) \<and> 0x3E \<notin> set (htmlEscape s)"
proof (induction s)
  case Nil
  show ?case by (simp add: htmlEscape_Nil)
next
  case (Cons c cs)
  then show ?case by (simp add: htmlEscape_Cons js_def)
qed

text \<open>
  C2 as stated has only the first \<open><\<close> and the first \<open>>\<close> escaped. On \<open><a><b>\<close> that
  reading leaves the second tag raw; the code escapes it too.
\<close>

theorem htmlEscape_later_occurrence_counterexample:
  "htmlEscape (js ''<a><b>'') = js ''&lt;a&gt;&lt;b&gt;''
   \<and> first_occurrence_escape (js ''<a><b>'') = js ''&lt;a&gt;<b>''
   \<and> htmlEscape (js ''<a><b>'') \<noteq> first_occurrence_escape (js ''<a><b>'')"
  by (simp add: htmlEscape_def first_occurrence_escape_def htmlEscapeTable_def js_def)


section \<open>C5: the description with a script tag\<close>

text \<open>The definitions that evaluate the cleaning of a concrete description.\<close>

lemmas description_eval =
  cleaned_description_def escaped_description_def htmlEscape_def htmlEscapeTable_def
  trim_def is_whitespace_def newline_def js_def

text \<open>
  C5. For the description \<open>"  <script>bad</script>\ntext  "\<close> (two spaces at each end, one
  newline) the aggregator's cleaned description is \<open>&lt;script&gt;bad&lt;/script&gt;text\<close>:
  no raw \<open><\<close> or \<open>>\<close>, no newline, no white space at either end; and this is the
  description of the triple the aggregator stores for such an item.
\<close>

theorem script_description_cleaned:
  "cleaned_description (Some (js ''  <script>bad</script>'' @ newline @ js ''text  ''))
     = js ''&lt;script&gt;bad&lt;/script&gt;text''
   \<and> 0x3C \<notin> set (cleaned_description (Some (js ''  <script>bad</script>'' @ newline @ js ''text  '')))
   \<and> 0x3E \<notin> set (cleaned_description (Some (js ''  <script>bad</script>'' @ newline @ js ''text  '')))
   \<and> 0xA \<notin> set (cleaned_description (Some (js ''  <script>bad</script>'' @ newline @ js ''text  '')))
   \<and> \<not> is_whitespace (hd (cleaned_description (Some (js ''  <script>bad</script>'' @ newline @ js ''text  ''))))
   \<and> \<not> is_whitespace (last (cleaned_description (Some (js ''  <script>bad</script>'' @ newline @ js ''text  ''))))
   \<and> add_item [] \<lparr>name = n, description = Some (js ''  <script>bad</script>'' @ newline @ js ''text  ''),
                    html_url = u, language = None\<rparr>
       = Inr [(js ''Others'', [(n, u, js ''&lt;script&gt;bad&lt;/script&gt;text'')])]"
proof -
  have clean: "cleaned_description (Some (js ''  <script>bad</script>'' @ newline @ js ''text  ''))
     = js ''&lt;script&gt;bad&lt;/script&gt;text''"
    by (simp add: description_eval)
  have item: "add_item [] \<lparr>name = n, description = Some (js ''  <script>bad</script>'' @ newline @ js ''text  ''),
                    html_url = u, language = None\<rparr>
       = Inr [(js ''Others'', [(n, u, cleaned_description (Some (js ''  <script>bad</script>'' @ newline @ js ''text  '')))])]"
    by (simp add: add_item_def language_or_others_def js_in_def own_key_def push_def
          object_prototype_keys_def cleaned_description_def Let_def js_def)
  show ?thesis
    unfolding item unfolding clean
    by (simp add: is_whitespace_def js_def)
qed

section \<open>Properties of the aggregator\<close>

lemma bucket_append_to:
  "bucket (append_to key t obj) k =
     (if k = key \<and> own_key key obj then bucket obj k @ [t] else bucket obj k)"
  by (induction obj) (auto simp add: bucket_def own_key_def)

lemma bucket_new_key:
  "\<not> own_key key obj \<Longrightarrow> bucket (obj @ [(key, [])]) k = bucket obj k"
  by (auto simp add: bucket_def own_key_def map_add_def split: option.splits)

lemma own_key_new: "own_key key (obj @ [(key, ts)])"
  by (auto simp add: own_key_def map_add_def split: option.splits)

lemma keys_append_to: "map fst (append_to key t obj) = map fst obj"
  by (induction obj) auto

lemma total_append_to:
  "own_key key obj \<Longrightarrow> total_triples (append_to key t obj) = Suc (total_triples obj)"
  by (induction obj) (auto simp add: total_triples_def own_key_def)

lemma total_new_key: "total_triples (obj @ [(key, [])]) = total_triples obj"
  by (simp add: total_triples_def)

lemma own_key_iff: "own_key key obj \<longleftrightarrow> key \<in> fst ` set obj"
  by (simp add: own_key_def map_of_eq_None_iff)

text \<open>What one run of the callback does, in its three cases.\<close>

lemma add_item_own:
  "own_key (language_or_others (language it)) obj
   \<Longrightarrow> add_item obj it = Inr (append_to (language_or_others (language it)) (triple_of it) obj)"
  by (simp add: add_item_def js_in_def push_def triple_of_def cleaned_description_def Let_def)

lemma add_item_new:
  "\<not> own_key (language_or_others (language it)) obj
   \<Longrightarrow> language_or_others (language it) \<notin> set object_prototype_keys
   \<Longrightarrow> add_item obj it =
         Inr (append_to (language_or_others (language it)) (triple_of it)
                (obj @ [(language_or_others (language it), [])]))"
  by (simp add: add_item_def js_in_def push_def triple_of_def cleaned_description_def Let_def
        own_key_new)

lemma add_item_inherited:
  "\<not> own_key (language_or_others (language it)) obj
   \<Longrightarrow> language_or_others (language it) \<in> set object_prototype_keys
   \<Longrightarrow> add_item obj it = Inl Push_is_not_a_function"
  by (simp add: add_item_def js_in_def push_def Let_def)

lemma add_item_effect:
  assumes "add_item obj it = Inr obj'"
  shows "bucket obj' k =
           (if k = language_or_others (language it) then bucket obj k @ [triple_of it]
            else bucket obj k)"
    and "total_triples obj' = Suc (total_triples obj)"
    and "distinct (map fst obj) \<Longrightarrow> distinct (map fst obj')"
proof -
  let ?l = "language_or_others (language it)"
  consider (own) "own_key ?l obj"
    | (new) "\<not> own_key ?l obj" "?l \<notin> set object_prototype_keys"
    | (inherited) "\<not> own_key ?l obj" "?l \<in> set object_prototype_keys"
    by blast
  then have "bucket obj' k = (if k = ?l then bucket obj k @ [triple_of it] else bucket obj k)
      \<and> total_triples obj' = Suc (total_triples obj)
      \<and> (distinct (map fst obj) \<longrightarrow> distinct (map fst obj'))"
  proof cases
    case own
    with assms have "obj' = append_to ?l (triple_of it) obj"
      by (simp add: add_item_own)
    with own show ?thesis
      by (simp add: bucket_append_to total_append_to keys_append_to)
  next
    case new
    with assms have "obj' = append_to ?l (triple_of it) (obj @ [(?l, [])])"
      by (simp add: add_item_new)
    with new show ?thesis
      by (simp add: bucket_append_to total_append_to keys_append_to own_key_new
            bucket_new_key total_new_key own_key_iff)
  next
    case inherited
    with assms show ?thesis by (simp add: add_item_inherited)
  qed
  then show "bucket obj' k =
           (if k = language_or_others (language it) then bucket obj k @ [triple_of it]
            else bucket obj k)"
    and "total_triples obj' = Suc (total_triples obj)"
    and "distinct (map fst obj) \<Longrightarrow> distinct (map fst obj')"
    by simp_all
qed

lemma add_item_succeeds:
  "language_or_others (language it) \<notin> set object_prototype_keys \<Longrightarrow> \<exists>obj'. add_item obj it = Inr obj'"
  by (cases "own_key (language_or_others (language it)) obj")
     (simp_all add: add_item_own add_item_new)

text \<open>
  While no language is a property name of \<open>Object.prototype\<close>, the traversal completes,
  every item adds one triple, and each language's array holds the triples of its items in
  the order of the list.
\<close>

lemma aggregate_without_inherited_keys:
  assumes "\<forall>it \<in> set items. language_or_others (language it) \<notin> set object_prototype_keys"
  shows "\<exists>obj'. aggregate obj items = Inr obj'
           \<and> total_triples obj' = total_triples obj + length items
           \<and> (\<forall>k. bucket obj' k =
                  bucket obj k
                  @ map triple_of (filter (\<lambda>it. language_or_others (language it) = k) items))
           \<and> (distinct (map fst obj) \<longrightarrow> distinct (map fst obj'))"
  using assms
proof (induction items arbitrary: obj)
  case Nil
  show ?case by simp
next
  case (Cons it items)
  from Cons.prems have ok: "language_or_others (language it) \<notin> set object_prototype_keys"
    and rest: "\<forall>it \<in> set items. language_or_others (language it) \<notin> set object_prototype_keys"
    by simp_all
  from add_item_succeeds [OF ok] obtain obj1 where step: "add_item obj it = Inr obj1"
    by blast
  from Cons.IH [OF rest, of obj1] obtain obj' where run: "aggregate obj1 items = Inr obj'"
    and total: "total_triples obj' = total_triples obj1 + length items"
    and buckets: "\<And>k. bucket obj' k =
                  bucket obj1 k
                  @ map triple_of (filter (\<lambda>it. language_or_others (language it) = k) items)"
    and dist: "distinct (map fst obj1) \<longrightarrow> distinct (map fst obj')"
    by blast
  from step run have "aggregate obj (it # items) = Inr obj'" by simp
  moreover from total add_item_effect(2) [OF step]
  have "total_triples obj' = total_triples obj + length (it # items)" by simp
  moreover have "\<forall>k. bucket obj' k =
                  bucket obj k
                  @ map triple_of (filter (\<lambda>it. language_or_others (language it) = k) (it # items))"
    using buckets add_item_effect(1) [OF step] by simp
  moreover from dist add_item_effect(3) [OF step]
  have "distinct (map fst obj) \<longrightarrow> distinct (map fst obj')" by blast
  ultimately show ?case by blast
qed

section \<open>C7: items without a language or a description\<close>




section \<open>C6: one triple for every item\<close>

text \<open>
  C6 asks that every fetched item ends up in exactly one language's array, so that the
  arrays together hold as many triples as items. \<open>aggregate_without_inherited_keys\<close>
  shows this, with the order within each array, for lists in which no language is a
  property name of \<open>Object.prototype\<close>. For such a name the code fails: it tests
  \<open>language in stargazed\<close>, which also holds for inherited properties (where \<open>validate\<close>
  asks \<open>hasOwnProperty\<close>), so no array is created, \<open>push\<close> is called on the inherited
  value and throws. At the item with language \<open>constructor\<close> the callback, the traversal
  and the whole run end in that \<open>TypeError\<close>; the item is in no array and nothing is
  written.
\<close>

theorem aggregate_inherited_language:
  "add_item [] \<lparr>name = js ''x'', description = None, html_url = js ''https://github.com/a/x'',
               language = Some (js ''constructor'')\<rparr> = Inl Push_is_not_a_function
   \<and> aggregate [] [\<lparr>name = js ''x'', description = None, html_url = js ''https://github.com/a/x'',
                    language = Some (js ''constructor'')\<rparr>] = Inl Push_is_not_a_function
   \<and> module_exports
         \<lparr>ghGot = (\<lambda>u p a. Response [\<lparr>name = js ''x'', description = None,
                                        html_url = js ''https://github.com/a/x'',
                                        language = Some (js ''constructor'')\<rparr>] None),
          readFile = Inr (js ''t''), render = (\<lambda>t c. Inr t), unescape = (\<lambda>s. s),
          writeFile = (\<lambda>s. None)\<rparr>
         empty_options (JObj [(js ''username'', JStr (js ''a''))])
       = Some (Thrown_type_error Push_is_not_a_function, [1],
               empty_options(Username := JStr (js ''a'')))"
proof -
  let ?it = "\<lparr>name = js ''x'', description = None, html_url = js ''https://github.com/a/x'',
               language = Some (js ''constructor'')\<rparr>"
  have step: "add_item [] ?it = Inl Push_is_not_a_function"
    by (simp add: add_item_def language_or_others_def js_in_def own_key_def push_def
          object_prototype_keys_def Let_def js_def)
  then have agg: "aggregate [] [?it] = Inl Push_is_not_a_function"
    by simp
  have v: "validate empty_options (JObj [(js ''username'', JStr (js ''a''))])
             = (None, empty_options(Username := JStr (js ''a'')))"
    by (simp add: validate_eval)
  have fetch: "loop (\<lambda>u p a. Response [?it] None) (JStr (js ''a''))
                 (JObj [(js ''username'', JStr (js ''a''))]) 1 [] []
               = Some (Fetched [?it], [1])"
    by (simp add: loop_last_page [where body = "[?it]" and link = None] has_next_def)
  have run: "module_exports
         \<lparr>ghGot = (\<lambda>u p a. Response [?it] None),
          readFile = Inr (js ''t''), render = (\<lambda>t c. Inr t), unescape = (\<lambda>s. s),
          writeFile = (\<lambda>s. None)\<rparr>
         empty_options (JObj [(js ''username'', JStr (js ''a''))])
       = Some (Thrown_type_error Push_is_not_a_function, [1],
               empty_options(Username := JStr (js ''a'')))"
    by (simp add: module_exports_def v fetch agg empty_options_apply js_Nil_iff
             del: One_nat_def aggregate.simps)
  from step agg run show ?thesis by blast
qed

section \<open>Properties of the fetch loop\<close>

lemma has_next_iff:
  "has_next link \<longleftrightarrow> (\<exists>l. link = Some l \<and> str_includes l (js ''next''))"
  by (cases link) (auto simp add: has_next_def js_def)

lemma loop_log:
  assumes "loop ep username options_arg page list log = Some y"
  shows "\<exists>rest. snd y = log @ page # rest"
proof (rule loop.raw_induct
         [where P = "\<lambda>ep username options_arg page list log y. \<exists>rest. snd y = log @ page # rest",
          OF _ assms])
  fix loop' :: "endpoint \<Rightarrow> jsval \<Rightarrow> jsval \<Rightarrow> nat \<Rightarrow> item list \<Rightarrow> nat list
                  \<Rightarrow> (fetched \<times> nat list) option"
  fix ep username options_arg page list log y
  assume IH: "\<And>ep username options_arg page list log y.
                 loop' ep username options_arg page list log = Some y
                 \<Longrightarrow> \<exists>rest. snd y = log @ page # rest"
  assume step: "(case ep username page options_arg of
                   Rejected err \<Rightarrow> Some (Fetch_failed err, log @ [page])
                 | Response body link \<Rightarrow>
                     if has_next link
                     then loop' ep username options_arg (page + 1) (list @ body) (log @ [page])
                     else Some (Fetched (list @ body), log @ [page])) = Some y"
  show "\<exists>rest. snd y = log @ page # rest"
  proof (cases "ep username page options_arg")
    case (Rejected err)
    with step show ?thesis by auto
  next
    case (Response body link)
    show ?thesis
    proof (cases "has_next link")
      case True
      with step Response
      have "loop' ep username options_arg (page + 1) (list @ body) (log @ [page]) = Some y"
        by simp
      from IH [OF this] obtain rest where "snd y = (log @ [page]) @ (page + 1) # rest"
        by blast
      then have "snd y = log @ page # (page + 1) # rest" by simp
      then show ?thesis by blast
    next
      case False
      with step Response show ?thesis by auto
    qed
  qed
qed

text \<open>An endpoint that announces a next page on every page keeps the loop running for ever.\<close>

lemma loop_never_returns:
  assumes "\<forall>p. \<exists>body link. ep username p options_arg = Response body link \<and> has_next link"
  shows "loop ep username options_arg page list log = None"
proof (cases "loop ep username options_arg page list log")
  case None
  then show ?thesis .
next
  case (Some y)
  have "(\<forall>p. \<exists>body link. ep username p options_arg = Response body link \<and> has_next link)
        \<longrightarrow> False"
  proof (rule loop.raw_induct
           [where P = "\<lambda>ep username options_arg page list log y.
                         (\<forall>p. \<exists>body link. ep username p options_arg = Response body link
                                \<and> has_next link) \<longrightarrow> False",
            OF _ Some])
    fix loop' :: "endpoint \<Rightarrow> jsval \<Rightarrow> jsval \<Rightarrow> nat \<Rightarrow> item list \<Rightarrow> nat list
                    \<Rightarrow> (fetched \<times> nat list) option"
    fix ep username options_arg page list log y
    assume IH: "\<And>ep username options_arg page list log y.
                   loop' ep username options_arg page list log = Some y
                   \<Longrightarrow> (\<forall>p. \<exists>body link. ep username p options_arg = Response body link
                                \<and> has_next link) \<longrightarrow> False"
    assume step: "(case ep username page options_arg of
                     Rejected err \<Rightarrow> Some (Fetch_failed err, log @ [page])
                   | Response body link \<Rightarrow>
                       if has_next link
                       then loop' ep username options_arg (page + 1) (list @ body) (log @ [page])
                       else Some (Fetched (list @ body), log @ [page])) = Some y"
    show "(\<forall>p. \<exists>body link. ep username p options_arg = Response body link \<and> has_next link)
          \<longrightarrow> False"
    proof
      assume all: "\<forall>p. \<exists>body link. ep username p options_arg = Response body link \<and> has_next link"
      then obtain body link where "ep username page options_arg = Response body link"
        and "has_next link" by blast
      with step
      have "loop' ep username options_arg (page + 1) (list @ body) (log @ [page]) = Some y"
        by simp
      from IH [OF this] all show False by blast
    qed
  qed
  with assms show ?thesis by blast
qed


section \<open>C4: when the loop asks for another page\<close>

text \<open>
  C4 (as amended). The loop's test is that the link header is present and contains the
  substring \<open>next\<close>. For every fetched response: when the test fails (no link header, an
  empty one, or one without \<open>next\<close>) the loop ends and returns the accumulated items with
  this page's appended, having requested nothing further; when it holds, the loop goes on
  as the loop from the next page with this page's items appended, and the request that
  follows is for \<open>page + 1\<close>. While every page passes the test the loop never returns.
\<close>

theorem loop_follows_next:
  "(has_next link \<longleftrightarrow> (\<exists>l. link = Some l \<and> str_includes l (js ''next'')))
   \<and> (ep username page options_arg = Response body link \<and> \<not> has_next link
      \<longrightarrow> loop ep username options_arg page list log
            = Some (Fetched (list @ body), log @ [page]))
   \<and> (ep username page options_arg = Response body link \<and> has_next link
      \<longrightarrow> loop ep username options_arg page list log
            = loop ep username options_arg (page + 1) (list @ body) (log @ [page]))
   \<and> (ep username page options_arg = Response body link \<and> has_next link
        \<and> loop ep username options_arg page list log = Some (r, log')
      \<longrightarrow> (\<exists>rest. log' = log @ page # (page + 1) # rest))
   \<and> ((\<forall>p. \<exists>body link. ep username p options_arg = Response body link \<and> has_next link)
      \<longrightarrow> loop ep username options_arg page list log = None)"
proof (intro conjI impI)
  show "has_next link \<longleftrightarrow> (\<exists>l. link = Some l \<and> str_includes l (js ''next''))"
    by (rule has_next_iff)
next
  assume "ep username page options_arg = Response body link \<and> \<not> has_next link"
  then show "loop ep username options_arg page list log
            = Some (Fetched (list @ body), log @ [page])"
    by (simp add: loop_last_page)
next
  assume "ep username page options_arg = Response body link \<and> has_next link"
  then show "loop ep username options_arg page list log
            = loop ep username options_arg (page + 1) (list @ body) (log @ [page])"
    by (simp add: loop_next_page)
next
  assume h: "ep username page options_arg = Response body link \<and> has_next link
        \<and> loop ep username options_arg page list log = Some (r, log')"
  with loop_next_page [of ep username page options_arg body link list log]
  have "loop ep username options_arg (page + 1) (list @ body) (log @ [page]) = Some (r, log')"
    by simp
  from loop_log [OF this] obtain rest where "log' = (log @ [page]) @ (page + 1) # rest"
    by auto
  then have "log' = log @ page # (page + 1) # rest" by simp
  then show "\<exists>rest. log' = log @ page # (page + 1) # rest" by blast
next
  assume "\<forall>p. \<exists>body link. ep username p options_arg = Response body link \<and> has_next link"
  then show "loop ep username options_arg page list log = None"
    by (rule loop_never_returns)
qed

text \<open>The mock endpoint, page by page.\<close>

lemma mock_pages:
  "mock_endpoint u 1 a = Response (map (mock_item 1) [0..<100]) (Some mock_next_link)"
  "mock_endpoint u 2 a = Response (map (mock_item 2) [0..<100]) (Some mock_next_link)"
  "mock_endpoint u 3 a = Response (map (mock_item 3) [0..<100]) (Some mock_next_link)"
  "mock_endpoint u 4 a = Response [mock_item 4 0] None"
  by (simp_all add: mock_endpoint_def)

lemma mock_next_link_has_next: "has_next (Some mock_next_link)"
  by (simp add: has_next_def mock_next_link_def dquote_def js_def)

text \<open>
  The theorem on the last two pages of the mock endpoint, and on an endpoint whose every
  page announces a next one.
\<close>

theorem loop_follows_next_witness:
  "mock_endpoint (JStr (js ''a'')) 3 (JObj []) = Response (map (mock_item 3) [0..<100]) (Some mock_next_link)
   \<and> has_next (Some mock_next_link)
   \<and> mock_endpoint (JStr (js ''a'')) 4 (JObj []) = Response [mock_item 4 0] None
   \<and> \<not> has_next None
   \<and> loop mock_endpoint (JStr (js ''a'')) (JObj []) 4 [] [] = Some (Fetched [mock_item 4 0], [4])
   \<and> loop mock_endpoint (JStr (js ''a'')) (JObj []) 3 [] []
       = Some (Fetched (map (mock_item 3) [0..<100] @ [mock_item 4 0]), [3, 4])
   \<and> (\<exists>rest. [3::nat, 4] = [] @ 3 # (3 + 1) # rest)
   \<and> (\<forall>p. \<exists>body link.
          (\<lambda>u p a. Response [] (Some mock_next_link)) (JStr (js ''a'')) (p::nat) (JObj [])
            = Response body link \<and> has_next link)
   \<and> loop (\<lambda>u p a. Response [] (Some mock_next_link)) (JStr (js ''a'')) (JObj []) 1 [] []
       = None"
proof -
  let ?u = "JStr (js ''a'')" and ?a = "JObj []"
  have p3: "mock_endpoint ?u 3 ?a = Response (map (mock_item 3) [0..<100]) (Some mock_next_link)"
    and p4: "mock_endpoint ?u 4 ?a = Response [mock_item 4 0] None"
    by (simp_all add: mock_pages)
  have n4: "\<not> has_next None" by (simp add: has_next_def)
  note n3 = mock_next_link_has_next
  from loop_follows_next [of None mock_endpoint ?u 4 ?a "[mock_item 4 0]" "[]" "[]"] p4 n4
  have l4: "loop mock_endpoint ?u ?a 4 [] [] = Some (Fetched [mock_item 4 0], [4])"
    by simp
  from loop_follows_next
         [of None mock_endpoint ?u 4 ?a "[mock_item 4 0]" "map (mock_item 3) [0..<100]" "[3]"] p4 n4
  have l4': "loop mock_endpoint ?u ?a 4 (map (mock_item 3) [0..<100]) [3]
              = Some (Fetched (map (mock_item 3) [0..<100] @ [mock_item 4 0]), [3, 4])"
    by simp
  from loop_follows_next
         [of "Some mock_next_link" mock_endpoint ?u 3 ?a "map (mock_item 3) [0..<100]" "[]" "[]"]
       p3 n3
  have "loop mock_endpoint ?u ?a 3 [] [] = loop mock_endpoint ?u ?a (3 + 1) (map (mock_item 3) [0..<100]) [3]"
    by simp
  with l4' have l3: "loop mock_endpoint ?u ?a 3 [] []
       = Some (Fetched (map (mock_item 3) [0..<100] @ [mock_item 4 0]), [3, 4])"
    by simp
  from loop_follows_next
         [of "Some mock_next_link" mock_endpoint ?u 3 ?a "map (mock_item 3) [0..<100]" "[]" "[]"
             "Fetched (map (mock_item 3) [0..<100] @ [mock_item 4 0])" "[3, 4]"]
       p3 n3 l3
  have ex: "\<exists>rest. [3::nat, 4] = [] @ 3 # (3 + 1) # rest"
    by blast
  have all: "\<forall>p. \<exists>body link.
          (\<lambda>u p a. Response [] (Some mock_next_link)) ?u (p::nat) ?a = Response body link
          \<and> has_next link"
    using n3 by simp
  from loop_follows_next
         [where ep = "\<lambda>u p a. Response [] (Some mock_next_link)" and username = ?u
            and options_arg = ?a and page = 1 and list = "[]" and log = "[]"]
       all
  have forever: "loop (\<lambda>u p a. Response [] (Some mock_next_link)) ?u ?a 1 [] [] = None"
    by blast
  from p3 p4 n3 n4 l4 l3 ex all forever show ?thesis by blast
qed

text \<open>
  C4 as stated ties the further request to an advertised next relation and has a malformed
  header count as "no next page". The header \<open>next\<close> is malformed and advertises nothing,
  and a last page's header whose only relation is \<open>prev\<close> advertises no next page; both
  contain the substring, and the loop requests page 2 after either.
\<close>

theorem loop_substring_next_counterexample:
  "\<not> advertises_next_relation (Some (js ''next''))
   \<and> loop (\<lambda>u p a. if p = 1 then Response [] (Some (js ''next'')) else Response [] None)
        (JStr (js ''a'')) (JObj []) 1 [] [] = Some (Fetched [], [1, 2])
   \<and> \<not> advertises_next_relation
        (Some (js ''<https://api.example.com/users/nextjs/starred?page=1>; rel=''
               @ dquote @ js ''prev'' @ dquote))
   \<and> loop (\<lambda>u p a. if p = 1
                    then Response []
                           (Some (js ''<https://api.example.com/users/nextjs/starred?page=1>; rel=''
                                  @ dquote @ js ''prev'' @ dquote))
                    else Response [] None)
        (JStr (js ''a'')) (JObj []) 1 [] [] = Some (Fetched [], [1, 2])"
proof -
  let ?h1 = "js ''next''"
  let ?h2 = "js ''<https://api.example.com/users/nextjs/starred?page=1>; rel=''
               @ dquote @ js ''prev'' @ dquote"
  have a1: "\<not> advertises_next_relation (Some ?h1)"
    by (simp add: advertises_next_relation_def dquote_def js_def)
  have a2: "\<not> advertises_next_relation (Some ?h2)"
    by (simp add: advertises_next_relation_def dquote_def js_def)
  have n1: "has_next (Some ?h1)" by (simp add: has_next_def js_def)
  have n2: "has_next (Some ?h2)" by (simp add: has_next_def dquote_def js_def)
  have run: "has_next (Some h) \<Longrightarrow>
       loop (\<lambda>u p a. if p = 1 then Response [] (Some h) else Response [] None)
        (JStr (js ''a'')) (JObj []) 1 [] [] = Some (Fetched [], [1, 2])" for h
  proof -
    assume n: "has_next (Some h)"
    let ?ep = "\<lambda>(u::jsval) (p::nat) (a::jsval). if p = 1 then Response [] (Some h) else Response [] None"
    have "loop ?ep (JStr (js ''a'')) (JObj []) 1 [] []
            = loop ?ep (JStr (js ''a'')) (JObj []) (1 + 1) ([] @ []) ([] @ [1])"
      by (rule loop_next_page [where link = "Some h"]) (simp_all add: n)
    also have "\<dots> = Some (Fetched (([] @ []) @ []), ([] @ [1]) @ [1 + 1])"
      by (rule loop_last_page [where link = None]) (simp_all add: has_next_def)
    finally show ?thesis by simp
  qed
  from a1 a2 run [OF n1] run [OF n2] show ?thesis by blast
qed

section \<open>C1: three full pages and a last one\<close>

lemma mock_next_link_includes: "str_includes mock_next_link (js ''next'')"
  by (simp add: mock_next_link_def dquote_def js_def)

text \<open>
  C1 (as amended). For every endpoint that answers pages 1, 2 and 3 with 100 items each and a
  link header in which \<open>next\<close> occurs, and page 4 with one item and either no link header
  or one in which \<open>next\<close> does not occur, the fetch loop started as the exported function
  starts it (page 1, nothing accumulated) returns the 301 items, page after page and each
  page in its own order (items 0 to 99 are page 1, 100 to 199 page 2, 200 to 299 page 3,
  item 300 is page 4), and has requested exactly the pages 1, 2, 3, 4.
\<close>

theorem loop_four_pages:
  assumes "ep username 1 options_arg = Response b1 (Some h1)" and "length b1 = 100"
    and "str_includes h1 (js ''next'')"
    and "ep username 2 options_arg = Response b2 (Some h2)" and "length b2 = 100"
    and "str_includes h2 (js ''next'')"
    and "ep username 3 options_arg = Response b3 (Some h3)" and "length b3 = 100"
    and "str_includes h3 (js ''next'')"
    and "ep username 4 options_arg = Response b4 l4" and "length b4 = 1"
    and "l4 = None \<or> (\<exists>h4. l4 = Some h4 \<and> \<not> str_includes h4 (js ''next''))"
  shows "loop ep username options_arg 1 [] [] = Some (Fetched (b1 @ b2 @ b3 @ b4), [1, 2, 3, 4])
         \<and> length (b1 @ b2 @ b3 @ b4) = 301
         \<and> take 100 (b1 @ b2 @ b3 @ b4) = b1
         \<and> take 100 (drop 100 (b1 @ b2 @ b3 @ b4)) = b2
         \<and> take 100 (drop 200 (b1 @ b2 @ b3 @ b4)) = b3
         \<and> drop 300 (b1 @ b2 @ b3 @ b4) = b4"
proof -
  have next_page: "(1::nat) + 1 = 2" "(2::nat) + 1 = 3" "(3::nat) + 1 = 4"
    by simp_all
  from assms(3,6,9) have n: "has_next (Some h1)" "has_next (Some h2)" "has_next (Some h3)"
    by (simp_all add: has_next_iff)
  from assms(12) have n4: "\<not> has_next l4"
    by (auto simp add: has_next_iff)
  have "loop ep username options_arg 1 [] [] = loop ep username options_arg (1 + 1) ([] @ b1) ([] @ [1])"
    using assms(1) n(1) by (rule loop_next_page)
  also have "\<dots> = loop ep username options_arg 2 b1 [1]"
    by (simp only: next_page append_Nil)
  also have "\<dots> = loop ep username options_arg (2 + 1) (b1 @ b2) ([1] @ [2])"
    using assms(4) n(2) by (rule loop_next_page)
  also have "\<dots> = loop ep username options_arg 3 (b1 @ b2) [1, 2]"
    by (simp only: next_page append_Nil append_Cons)
  also have "\<dots> = loop ep username options_arg (3 + 1) ((b1 @ b2) @ b3) ([1, 2] @ [3])"
    using assms(7) n(3) by (rule loop_next_page)
  also have "\<dots> = loop ep username options_arg 4 (b1 @ b2 @ b3) [1, 2, 3]"
    by (simp only: next_page append_Nil append_Cons append_assoc)
  also have "\<dots> = Some (Fetched ((b1 @ b2 @ b3) @ b4), [1, 2, 3] @ [4])"
    using assms(10) n4 by (rule loop_last_page)
  finally have "loop ep username options_arg 1 [] [] = Some (Fetched (b1 @ b2 @ b3 @ b4), [1, 2, 3, 4])"
    by (simp only: append_Nil append_Cons append_assoc)
  moreover from assms(2,5,8,11) have "length (b1 @ b2 @ b3 @ b4) = 301"
    by simp
  moreover from assms(2,5,8) have "take 100 (b1 @ b2 @ b3 @ b4) = b1"
    "take 100 (drop 100 (b1 @ b2 @ b3 @ b4)) = b2"
    "take 100 (drop 200 (b1 @ b2 @ b3 @ b4)) = b3"
    "drop 300 (b1 @ b2 @ b3 @ b4) = b4"
    by simp_all
  ultimately show ?thesis by blast
qed

text \<open>The theorem on the mock endpoint, whose last page has no link header.\<close>

theorem loop_four_pages_witness:
  "mock_endpoint (JStr (js ''a'')) 1 (JObj [(js ''username'', JStr (js ''a''))])
       = Response (map (mock_item 1) [0..<100]) (Some mock_next_link)
   \<and> mock_endpoint (JStr (js ''a'')) 2 (JObj [(js ''username'', JStr (js ''a''))])
       = Response (map (mock_item 2) [0..<100]) (Some mock_next_link)
   \<and> mock_endpoint (JStr (js ''a'')) 3 (JObj [(js ''username'', JStr (js ''a''))])
       = Response (map (mock_item 3) [0..<100]) (Some mock_next_link)
   \<and> mock_endpoint (JStr (js ''a'')) 4 (JObj [(js ''username'', JStr (js ''a''))])
       = Response [mock_item 4 0] None
   \<and> str_includes mock_next_link (js ''next'')
   \<and> loop mock_endpoint (JStr (js ''a'')) (JObj [(js ''username'', JStr (js ''a''))]) 1 [] []
       = Some (Fetched (map (mock_item 1) [0..<100] @ map (mock_item 2) [0..<100]
                        @ map (mock_item 3) [0..<100] @ [mock_item 4 0]),
               [1, 2, 3, 4])
   \<and> length (map (mock_item 1) [0..<100] @ map (mock_item 2) [0..<100]
             @ map (mock_item 3) [0..<100] @ [mock_item 4 0]) = 301"
proof -
  let ?u = "JStr (js ''a'')" and ?a = "JObj [(js ''username'', JStr (js ''a''))]"
  note p = mock_pages [of ?u ?a]
  have len: "length (map (mock_item 1) [0..<100]) = 100" "length (map (mock_item 2) [0..<100]) = 100"
    "length (map (mock_item 3) [0..<100]) = 100" "length [mock_item 4 0] = 1"
    by simp_all
  have n4: "(None :: jsstring option) = None \<or> (\<exists>h4. None = Some h4 \<and> \<not> str_includes h4 (js ''next''))"
    by simp
  note n = mock_next_link_includes
  from loop_four_pages
         [of mock_endpoint ?u ?a "map (mock_item 1) [0..<100]" mock_next_link
             "map (mock_item 2) [0..<100]" mock_next_link
             "map (mock_item 3) [0..<100]" mock_next_link "[mock_item 4 0]" None,
          OF p(1) len(1) n p(2) len(2) n p(3) len(3) n p(4) len(4) n4]
  have "loop mock_endpoint ?u ?a 1 [] []
       = Some (Fetched (map (mock_item 1) [0..<100] @ map (mock_item 2) [0..<100]
                        @ map (mock_item 3) [0..<100] @ [mock_item 4 0]),
               [1, 2, 3, 4])
     \<and> length (map (mock_item 1) [0..<100] @ map (mock_item 2) [0..<100]
             @ map (mock_item 3) [0..<100] @ [mock_item 4 0]) = 301"
    by blast
  with p n show ?thesis by blast
qed

text \<open>
  C1 as stated asks of the last page only that its response carries no next relation. The
  endpoint for the user \<open>nextjs\<close> serves three pages of 100 items that advertise a next
  page and a last page of one item that advertises none; its header has \<open>next\<close> in the
  URL, so the loop goes on and issues a fifth request.
\<close>

theorem loop_fifth_request_counterexample:
  "nextjs_endpoint (JStr (js ''nextjs'')) 1 (JObj [])
       = Response (map (mock_item 1) [0..<100]) (Some mock_next_link)
   \<and> nextjs_endpoint (JStr (js ''nextjs'')) 2 (JObj [])
       = Response (map (mock_item 2) [0..<100]) (Some mock_next_link)
   \<and> nextjs_endpoint (JStr (js ''nextjs'')) 3 (JObj [])
       = Response (map (mock_item 3) [0..<100]) (Some mock_next_link)
   \<and> nextjs_endpoint (JStr (js ''nextjs'')) 4 (JObj [])
       = Response [mock_item 4 0] (Some nextjs_prev_link)
   \<and> advertises_next_relation (Some mock_next_link)
   \<and> \<not> advertises_next_relation (Some nextjs_prev_link)
   \<and> loop nextjs_endpoint (JStr (js ''nextjs'')) (JObj []) 1 [] []
       = Some (Fetched (map (mock_item 1) [0..<100] @ map (mock_item 2) [0..<100]
                        @ map (mock_item 3) [0..<100] @ [mock_item 4 0]),
               [1, 2, 3, 4, 5])"
proof -
  let ?u = "JStr (js ''nextjs'')" and ?a = "JObj []"
  let ?b1 = "map (mock_item 1) [0..<100]" and ?b2 = "map (mock_item 2) [0..<100]"
  let ?b3 = "map (mock_item 3) [0..<100]" and ?b4 = "[mock_item 4 0]"
  have p: "nextjs_endpoint ?u 1 ?a = Response ?b1 (Some mock_next_link)"
    "nextjs_endpoint ?u 2 ?a = Response ?b2 (Some mock_next_link)"
    "nextjs_endpoint ?u 3 ?a = Response ?b3 (Some mock_next_link)"
    "nextjs_endpoint ?u 4 ?a = Response ?b4 (Some nextjs_prev_link)"
    "nextjs_endpoint ?u 5 ?a = Response [] None"
    by (simp_all add: nextjs_endpoint_def)
  have adv: "advertises_next_relation (Some mock_next_link)"
    "\<not> advertises_next_relation (Some nextjs_prev_link)"
    by (simp_all add: advertises_next_relation_def mock_next_link_def nextjs_prev_link_def
          dquote_def js_def)
  note n = mock_next_link_has_next
  have n4: "has_next (Some nextjs_prev_link)"
    by (simp add: has_next_def nextjs_prev_link_def dquote_def js_def)
  have n5: "\<not> has_next None" by (simp add: has_next_def)
  have next_page: "(1::nat) + 1 = 2" "(2::nat) + 1 = 3" "(3::nat) + 1 = 4" "(4::nat) + 1 = 5"
    by simp_all
  have "loop nextjs_endpoint ?u ?a 1 [] [] = loop nextjs_endpoint ?u ?a (1 + 1) ([] @ ?b1) ([] @ [1])"
    using p(1) n by (rule loop_next_page)
  also have "\<dots> = loop nextjs_endpoint ?u ?a 2 ?b1 [1]"
    by (simp only: next_page append_Nil)
  also have "\<dots> = loop nextjs_endpoint ?u ?a (2 + 1) (?b1 @ ?b2) ([1] @ [2])"
    using p(2) n by (rule loop_next_page)
  also have "\<dots> = loop nextjs_endpoint ?u ?a 3 (?b1 @ ?b2) [1, 2]"
    by (simp only: next_page append_Nil append_Cons)
  also have "\<dots> = loop nextjs_endpoint ?u ?a (3 + 1) ((?b1 @ ?b2) @ ?b3) ([1, 2] @ [3])"
    using p(3) n by (rule loop_next_page)
  also have "\<dots> = loop nextjs_endpoint ?u ?a 4 (?b1 @ ?b2 @ ?b3) [1, 2, 3]"
    by (simp only: next_page append_Nil append_Cons append_assoc)
  also have "\<dots> = loop nextjs_endpoint ?u ?a (4 + 1) ((?b1 @ ?b2 @ ?b3) @ ?b4) ([1, 2, 3] @ [4])"
    using p(4) n4 by (rule loop_next_page)
  also have "\<dots> = loop nextjs_endpoint ?u ?a 5 (?b1 @ ?b2 @ ?b3 @ ?b4) [1, 2, 3, 4]"
    by (simp only: next_page append_Nil append_Cons append_assoc)
  also have "\<dots> = Some (Fetched ((?b1 @ ?b2 @ ?b3 @ ?b4) @ []), [1, 2, 3, 4] @ [5])"
    using p(5) n5 by (rule loop_last_page)
  finally have "loop nextjs_endpoint ?u ?a 1 [] []
       = Some (Fetched (?b1 @ ?b2 @ ?b3 @ ?b4), [1, 2, 3, 4, 5])"
    by (simp only: append_Nil append_Nil2 append_Cons append_assoc)
  with p(1-4) adv show ?thesis by blast
qed

section \<open>C3: a repository name without a token\<close>

lemma truthy_get_prop: "truthy (get_prop ps key) \<Longrightarrow> hasOwnProperty ps key"
  by (auto simp add: get_prop_def hasOwnProperty_def split: option.splits)

lemma option_table_entries:
  "(Token, js ''token'', js ''t'', isString,
      js ''invalid option. Token must be a string primitive.'') \<in> set option_table"
  "(Repo, js ''repo'', js ''r'', isString,
      js ''invalid option. Repo name must be a string primitive.'') \<in> set option_table"
  by (simp_all add: option_table_def)

text \<open>
  C3 (as amended). For every options object in which \<open>repo || r\<close> is truthy (a non-empty
  value) and neither \<open>token\<close> nor \<open>t\<close> is present, run on an options record that holds no
  truthy token from an earlier invocation, the exported function requests no page and ends
  in one of four ways, in this order: when validation fails, in \<open>flashError\<close> with the
  \<open>TypeError\<close>; otherwise, when the help or the version flag of the record is truthy, by
  returning without any output; otherwise, when the username is falsy, in \<open>flashError\<close>
  with "Error! username is a required field."; otherwise in \<open>flashError\<close> with "Error:
  creating repository needs token. Set --token".
\<close>

theorem repo_without_token_no_request:
  assumes "truthy (js_or (get_prop ps (js ''repo'')) (get_prop ps (js ''r'')))"
    and "\<not> hasOwnProperty ps (js ''token'')" and "\<not> hasOwnProperty ps (js ''t'')"
    and "\<not> truthy (options0 Token)"
  shows "module_exports env options0 (JObj ps) =
           (case validate options0 (JObj ps) of
              (Some err, options) \<Rightarrow> Some (Fatal (Flash_type_error err), [], options)
            | (None, options) \<Rightarrow>
                if truthy (options Help) \<or> truthy (options Version)
                then Some (Returned, [], options)
                else if \<not> truthy (options Username)
                then Some (Fatal (Flash_text (js ''Error! username is a required field.'')),
                           [], options)
                else Some (Fatal (Flash_text
                                    (js ''Error: creating repository needs token. Set --token'')),
                           [], options))"
proof -
  obtain r options where v: "validate options0 (JObj ps) = (r, options)"
    by (cases "validate options0 (JObj ps)")
  from validate_absent [OF option_table_entries(1), of "JObj ps" options0] assms(2,3) v
  have "options Token = options0 Token" by simp
  with assms(4) have no_token: "\<not> truthy (options Token)" by simp
  show ?thesis
  proof (cases r)
    case (Some e)
    with v show ?thesis by (simp add: module_exports_def)
  next
    case None
    from assms(1) have "hasOwnProperty ps (js ''repo'') \<or> hasOwnProperty ps (js ''r'')"
      by (auto simp add: js_or_def dest: truthy_get_prop split: if_splits)
    with run_checks_passed_option [OF distinct_option_table option_table_entries(2), of ps options0 options]
      v None
    have "options Repo = js_or (get_prop ps (js ''repo'')) (get_prop ps (js ''r''))"
      by (simp add: validate_run_checks)
    with assms(1) have repo: "truthy (options Repo)" by simp
    from v None repo no_token show ?thesis
      by (simp add: module_exports_def)
  qed
qed

text \<open>The definitions that evaluate the steps after the fetch.\<close>

lemmas run_eval =
  module_exports_def buildReadmeContent_def getReadmeTemplate_def writeReadmeContent_def
  object_keys_def

text \<open>
  The theorem in a fresh module, once for each way to end: at
  \<open>{username: "a", repo: "x"}\<close> (the token message), at
  \<open>{username: "a", repo: "x", help: true}\<close> (silent return), at
  \<open>{username: 5, repo: "x", help: true}\<close> (the \<open>TypeError\<close>, help or not) and at
  \<open>{repo: "x"}\<close> (the username message).
\<close>

theorem repo_without_token_no_request_witness:
  "truthy (js_or (get_prop [(js ''username'', JStr (js ''a'')), (js ''repo'', JStr (js ''x''))] (js ''repo''))
                 (get_prop [(js ''username'', JStr (js ''a'')), (js ''repo'', JStr (js ''x''))] (js ''r'')))
   \<and> \<not> hasOwnProperty [(js ''username'', JStr (js ''a'')), (js ''repo'', JStr (js ''x''))] (js ''token'')
   \<and> \<not> hasOwnProperty [(js ''username'', JStr (js ''a'')), (js ''repo'', JStr (js ''x''))] (js ''t'')
   \<and> \<not> truthy (empty_options Token)
   \<and> module_exports
         \<lparr>ghGot = (\<lambda>u p a. Response [] None), readFile = Inr (js ''t''),
          render = (\<lambda>t c. Inr t), unescape = (\<lambda>s. s), writeFile = (\<lambda>s. None)\<rparr>
         empty_options (JObj [(js ''username'', JStr (js ''a'')), (js ''repo'', JStr (js ''x''))])
       = Some (Fatal (Flash_text (js ''Error: creating repository needs token. Set --token'')), [],
               empty_options(Username := JStr (js ''a''), Repo := JStr (js ''x'')))
   \<and> truthy (js_or (get_prop [(js ''username'', JStr (js ''a'')), (js ''repo'', JStr (js ''x'')),
                               (js ''help'', JBool True)] (js ''repo''))
                     (get_prop [(js ''username'', JStr (js ''a'')), (js ''repo'', JStr (js ''x'')),
                               (js ''help'', JBool True)] (js ''r'')))
   \<and> \<not> hasOwnProperty [(js ''username'', JStr (js ''a'')), (js ''repo'', JStr (js ''x'')),
                        (js ''help'', JBool True)] (js ''token'')
   \<and> \<not> hasOwnProperty [(js ''username'', JStr (js ''a'')), (js ''repo'', JStr (js ''x'')),
                        (js ''help'', JBool True)] (js ''t'')
   \<and> module_exports
         \<lparr>ghGot = (\<lambda>u p a. Response [] None), readFile = Inr (js ''t''),
          render = (\<lambda>t c. Inr t), unescape = (\<lambda>s. s), writeFile = (\<lambda>s. None)\<rparr>
         empty_options
         (JObj [(js ''username'', JStr (js ''a'')), (js ''repo'', JStr (js ''x'')),
                (js ''help'', JBool True)])
       = Some (Returned, [],
               empty_options(Username := JStr (js ''a''), Repo := JStr (js ''x''),
                             Help := JBool True))
   \<and> truthy (js_or (get_prop [(js ''username'', JNum 5), (js ''repo'', JStr (js ''x'')),
                               (js ''help'', JBool True)] (js ''repo''))
                     (get_prop [(js ''username'', JNum 5), (js ''repo'', JStr (js ''x'')),
                               (js ''help'', JBool True)] (js ''r'')))
   \<and> \<not> hasOwnProperty [(js ''username'', JNum 5), (js ''repo'', JStr (js ''x'')),
                        (js ''help'', JBool True)] (js ''token'')
   \<and> \<not> hasOwnProperty [(js ''username'', JNum 5), (js ''repo'', JStr (js ''x'')),
                        (js ''help'', JBool True)] (js ''t'')
   \<and> module_exports
         \<lparr>ghGot = (\<lambda>u p a. Response [] None), readFile = Inr (js ''t''),
          render = (\<lambda>t c. Inr t), unescape = (\<lambda>s. s), writeFile = (\<lambda>s. None)\<rparr>
         empty_options
         (JObj [(js ''username'', JNum 5), (js ''repo'', JStr (js ''x'')),
                (js ''help'', JBool True)])
       = Some (Fatal (Flash_type_error
                        (Invalid_option (js ''invalid option. Username must be a string primitive.''))),
               [], empty_options(Username := JNum 5))
   \<and> truthy (js_or (get_prop [(js ''repo'', JStr (js ''x''))] (js ''repo''))
                     (get_prop [(js ''repo'', JStr (js ''x''))] (js ''r'')))
   \<and> \<not> hasOwnProperty [(js ''repo'', JStr (js ''x''))] (js ''token'')
   \<and> \<not> hasOwnProperty [(js ''repo'', JStr (js ''x''))] (js ''t'')
   \<and> module_exports
         \<lparr>ghGot = (\<lambda>u p a. Response [] None), readFile = Inr (js ''t''),
          render = (\<lambda>t c. Inr t), unescape = (\<lambda>s. s), writeFile = (\<lambda>s. None)\<rparr>
         empty_options (JObj [(js ''repo'', JStr (js ''x''))])
       = Some (Fatal (Flash_text (js ''Error! username is a required field.'')), [],
               empty_options(Repo := JStr (js ''x'')))"
proof -
  let ?env = "\<lparr>ghGot = (\<lambda>u p a. Response [] None), readFile = Inr (js ''t''),
          render = (\<lambda>t c. Inr t), unescape = (\<lambda>s. s), writeFile = (\<lambda>s. None)\<rparr>"
  let ?ps1 = "[(js ''username'', JStr (js ''a'')), (js ''repo'', JStr (js ''x''))]"
  let ?ps2 = "[(js ''username'', JStr (js ''a'')), (js ''repo'', JStr (js ''x'')),
               (js ''help'', JBool True)]"
  let ?ps3 = "[(js ''username'', JNum 5), (js ''repo'', JStr (js ''x'')),
               (js ''help'', JBool True)]"
  let ?ps4 = "[(js ''repo'', JStr (js ''x''))]"
  have t: "\<not> truthy (empty_options Token)"
    by (simp add: empty_options_def)
  have h1: "truthy (js_or (get_prop ?ps1 (js ''repo'')) (get_prop ?ps1 (js ''r'')))"
    "\<not> hasOwnProperty ?ps1 (js ''token'')" "\<not> hasOwnProperty ?ps1 (js ''t'')"
    and h2: "truthy (js_or (get_prop ?ps2 (js ''repo'')) (get_prop ?ps2 (js ''r'')))"
    "\<not> hasOwnProperty ?ps2 (js ''token'')" "\<not> hasOwnProperty ?ps2 (js ''t'')"
    and h3: "truthy (js_or (get_prop ?ps3 (js ''repo'')) (get_prop ?ps3 (js ''r'')))"
    "\<not> hasOwnProperty ?ps3 (js ''token'')" "\<not> hasOwnProperty ?ps3 (js ''t'')"
    and h4: "truthy (js_or (get_prop ?ps4 (js ''repo'')) (get_prop ?ps4 (js ''r'')))"
    "\<not> hasOwnProperty ?ps4 (js ''token'')" "\<not> hasOwnProperty ?ps4 (js ''t'')"
    by (simp_all add: js_or_def get_prop_def hasOwnProperty_def js_def)
  have v1: "validate empty_options (JObj ?ps1)
             = (None, empty_options(Username := JStr (js ''a''), Repo := JStr (js ''x'')))"
    and v2: "validate empty_options (JObj ?ps2)
             = (None, empty_options(Username := JStr (js ''a''), Repo := JStr (js ''x''),
                                    Help := JBool True))"
    and v3: "validate empty_options (JObj ?ps3)
             = (Some (Invalid_option (js ''invalid option. Username must be a string primitive.'')),
                empty_options(Username := JNum 5))"
    and v4: "validate empty_options (JObj ?ps4) = (None, empty_options(Repo := JStr (js ''x'')))"
    by (simp_all add: validate_eval)
  from repo_without_token_no_request [of ?ps1 empty_options ?env, OF h1 t] v1
  have r1: "module_exports ?env empty_options (JObj ?ps1)
       = Some (Fatal (Flash_text (js ''Error: creating repository needs token. Set --token'')), [],
               empty_options(Username := JStr (js ''a''), Repo := JStr (js ''x'')))"
    by (simp add: empty_options_apply js_Nil_iff)
  from repo_without_token_no_request [of ?ps2 empty_options ?env, OF h2 t] v2
  have r2: "module_exports ?env empty_options (JObj ?ps2)
       = Some (Returned, [],
               empty_options(Username := JStr (js ''a''), Repo := JStr (js ''x''),
                             Help := JBool True))"
    by simp
  from repo_without_token_no_request [of ?ps3 empty_options ?env, OF h3 t] v3
  have r3: "module_exports ?env empty_options (JObj ?ps3)
       = Some (Fatal (Flash_type_error
                        (Invalid_option (js ''invalid option. Username must be a string primitive.''))),
               [], empty_options(Username := JNum 5))"
    by simp
  from repo_without_token_no_request [of ?ps4 empty_options ?env, OF h4 t] v4
  have r4: "module_exports ?env empty_options (JObj ?ps4)
       = Some (Fatal (Flash_text (js ''Error! username is a required field.'')), [],
               empty_options(Repo := JStr (js ''x'')))"
    by (simp add: empty_options_apply)
  from t h1 h2 h3 h4 r1 r2 r3 r4 show ?thesis by blast
qed

text \<open>
  C3 as stated has every configuration with \<open>repo\<close>/\<open>r\<close> set and no token set fail
  fatally before any request. Three configurations without \<open>token\<close> and \<open>t\<close> do not:
  \<open>{username: "a", repo: "x", help: true}\<close> returns at the help flag, with no error;
  \<open>{username: "a", r: ""}\<close> passes \<open>if (repo)\<close> and fetches page 1;
  \<open>{username: "a", repo: "x"}\<close> fetches page 1 when an earlier invocation left a token in
  the options record.
\<close>

theorem repo_without_token_counterexample:
  "hasOwnProperty [(js ''username'', JStr (js ''a'')), (js ''repo'', JStr (js ''x'')),
                   (js ''help'', JBool True)] (js ''repo'')
   \<and> \<not> hasOwnProperty [(js ''username'', JStr (js ''a'')), (js ''repo'', JStr (js ''x'')),
                        (js ''help'', JBool True)] (js ''token'')
   \<and> \<not> hasOwnProperty [(js ''username'', JStr (js ''a'')), (js ''repo'', JStr (js ''x'')),
                        (js ''help'', JBool True)] (js ''t'')
   \<and> module_exports
         \<lparr>ghGot = (\<lambda>u p a. Response [] None), readFile = Inr (js ''t''),
          render = (\<lambda>t c. Inr t), unescape = (\<lambda>s. s), writeFile = (\<lambda>s. None)\<rparr>
         empty_options
         (JObj [(js ''username'', JStr (js ''a'')), (js ''repo'', JStr (js ''x'')),
                (js ''help'', JBool True)])
       = Some (Returned, [],
               empty_options(Username := JStr (js ''a''), Repo := JStr (js ''x''),
                             Help := JBool True))
   \<and> hasOwnProperty [(js ''username'', JStr (js ''a'')), (js ''r'', JStr [])] (js ''r'')
   \<and> \<not> hasOwnProperty [(js ''username'', JStr (js ''a'')), (js ''r'', JStr [])] (js ''token'')
   \<and> \<not> hasOwnProperty [(js ''username'', JStr (js ''a'')), (js ''r'', JStr [])] (js ''t'')
   \<and> module_exports
         \<lparr>ghGot = (\<lambda>u p a. Response [] None), readFile = Inr (js ''t''),
          render = (\<lambda>t c. Inr t), unescape = (\<lambda>s. s), writeFile = (\<lambda>s. None)\<rparr>
         empty_options (JObj [(js ''username'', JStr (js ''a'')), (js ''r'', JStr [])])
       = Some (Wrote_README (js ''t''), [1],
               empty_options(Username := JStr (js ''a''), Repo := JStr []))
   \<and> hasOwnProperty [(js ''username'', JStr (js ''a'')), (js ''repo'', JStr (js ''x''))] (js ''repo'')
   \<and> \<not> hasOwnProperty [(js ''username'', JStr (js ''a'')), (js ''repo'', JStr (js ''x''))] (js ''token'')
   \<and> \<not> hasOwnProperty [(js ''username'', JStr (js ''a'')), (js ''repo'', JStr (js ''x''))] (js ''t'')
   \<and> module_exports
         \<lparr>ghGot = (\<lambda>u p a. Response [] None), readFile = Inr (js ''t''),
          render = (\<lambda>t c. Inr t), unescape = (\<lambda>s. s), writeFile = (\<lambda>s. None)\<rparr>
         (empty_options(Token := JStr (js ''secret'')))
         (JObj [(js ''username'', JStr (js ''a'')), (js ''repo'', JStr (js ''x''))])
       = Some (Wrote_README (js ''t''), [1],
               empty_options(Token := JStr (js ''secret''), Username := JStr (js ''a''),
                             Repo := JStr (js ''x'')))"
proof -
  let ?env = "\<lparr>ghGot = (\<lambda>u p a. Response [] None), readFile = Inr (js ''t''),
          render = (\<lambda>t c. Inr t), unescape = (\<lambda>s. s), writeFile = (\<lambda>s. None)\<rparr>"
  let ?ps1 = "[(js ''username'', JStr (js ''a'')), (js ''repo'', JStr (js ''x'')),
               (js ''help'', JBool True)]"
  let ?ps2 = "[(js ''username'', JStr (js ''a'')), (js ''r'', JStr [])]"
  let ?ps3 = "[(js ''username'', JStr (js ''a'')), (js ''repo'', JStr (js ''x''))]"
  have keys: "hasOwnProperty ?ps1 (js ''repo'')" "\<not> hasOwnProperty ?ps1 (js ''token'')"
    "\<not> hasOwnProperty ?ps1 (js ''t'')"
    "hasOwnProperty ?ps2 (js ''r'')" "\<not> hasOwnProperty ?ps2 (js ''token'')"
    "\<not> hasOwnProperty ?ps2 (js ''t'')"
    "hasOwnProperty ?ps3 (js ''repo'')" "\<not> hasOwnProperty ?ps3 (js ''token'')"
    "\<not> hasOwnProperty ?ps3 (js ''t'')"
    by (simp_all add: hasOwnProperty_def js_def)
  have v1: "validate empty_options (JObj ?ps1)
              = (None, empty_options(Username := JStr (js ''a''), Repo := JStr (js ''x''),
                                     Help := JBool True))"
    and v2: "validate empty_options (JObj ?ps2)
              = (None, empty_options(Username := JStr (js ''a''), Repo := JStr []))"
    and v3: "validate (empty_options(Token := JStr (js ''secret''))) (JObj ?ps3)
              = (None, empty_options(Token := JStr (js ''secret''), Username := JStr (js ''a''),
                                     Repo := JStr (js ''x'')))"
    by (simp_all add: validate_eval)
  have fetch: "loop (\<lambda>u p a. Response [] None) u a 1 [] [] = Some (Fetched [], [1])" for u a
    by (simp add: loop_last_page [where body = "[]" and link = None] has_next_def)
  have r1: "module_exports ?env empty_options (JObj ?ps1)
       = Some (Returned, [],
               empty_options(Username := JStr (js ''a''), Repo := JStr (js ''x''),
                             Help := JBool True))"
    by (simp add: module_exports_def v1)
  have r2: "module_exports ?env empty_options (JObj ?ps2)
       = Some (Wrote_README (js ''t''), [1],
               empty_options(Username := JStr (js ''a''), Repo := JStr []))"
    by (simp add: run_eval v2 fetch empty_options_apply js_Nil_iff del: One_nat_def)
  have r3: "module_exports ?env (empty_options(Token := JStr (js ''secret''))) (JObj ?ps3)
       = Some (Wrote_README (js ''t''), [1],
               empty_options(Token := JStr (js ''secret''), Username := JStr (js ''a''),
                             Repo := JStr (js ''x'')))"
    by (simp add: run_eval v3 fetch empty_options_apply js_Nil_iff del: One_nat_def)
  from keys r1 r2 r3 show ?thesis by blast
qed

section \<open>C8: running twice\<close>



end
